theory Spec2Isabelle
  imports Complex_Main "HOL-Library.AList" "HOL-Library.Log_Nat"
begin

section \<open>Data model\<close>

text \<open>
  The TypeScript sources work on \<^verbatim>\<open>number\<close> prices, which are IEEE binary64
  values. A price is modelled as the \<^typ>\<open>real\<close> number it denotes, and comparisons
  of prices are the comparisons of these reals. Every addition, subtraction and
  multiplication of prices in the source rounds its result to binary64; the model applies
  the same rounding (section "Binary64 arithmetic"). NaN is outside the model, and a
  result beyond the largest binary64 value, which the source represents by an infinity, is
  represented by its rounding with unbounded exponent. Counters
  (\<^verbatim>\<open>candlesElapsed\<close>, array indices, \<^verbatim>\<open>lookback\<close>) are natural numbers. The
  string-typed unions of \<^verbatim>\<open>types.ts\<close> are datatypes.
\<close>

datatype Direction = BUY | SELL

datatype SwingType = HIGH | LOW

datatype Trend = UP | DOWN | RANGING

datatype SetupStatus = WAITING | TRIGGERED | EXPIRED

datatype Outcome = WIN | LOSS | OPEN

datatype Pair = EUR_USD | GBP_USD | AUD_USD | USD_JPY | XAU_USD

datatype Timeframe = M15 | M30 | H1 | H4

text \<open>\<^verbatim>\<open>interface Candle\<close> (the optional \<^verbatim>\<open>volume\<close> is never read by the engine).\<close>

record Candle =
  time :: string
  "open" :: real
  high :: real
  low :: real
  close :: real
  complete :: bool

text \<open>\<^verbatim>\<open>interface SwingPoint\<close>; its fields \<^verbatim>\<open>time\<close> and \<^verbatim>\<open>type\<close>
  are \<open>swingTime\<close> and \<open>swingType\<close> here.\<close>

record SwingPoint =
  index :: nat
  swingTime :: string
  price :: real
  swingType :: SwingType

text \<open>\<^verbatim>\<open>interface TradeSetup\<close>.\<close>

record TradeSetup =
  direction :: Direction
  entryZone :: real
  stopLoss :: real
  takeProfit :: real
  riskPips :: real
  structurePoint :: SwingPoint

section \<open>Binary64 arithmetic\<close>

text \<open>
  The binary exponent of a non-zero real: \<open>2 powi expo2 x \<le> \<bar>x\<bar> < 2 powi (expo2 x + 1)\<close>
  (lemma \<open>expo2_bounds\<close> below). It is computed from the bit length of the integer part
  of \<open>\<bar>x\<bar>\<close>, or of its reciprocal rounded up (\<open>- \<lfloor>- y\<rfloor>\<close> is the ceiling of \<open>y\<close>)
  when \<open>\<bar>x\<bar> < 1\<close>.
\<close>

definition expo2 :: "real \<Rightarrow> int" where
  "expo2 x = (if \<bar>x\<bar> \<ge> 1 then bitlen \<lfloor>\<bar>x\<bar>\<rfloor> - 1
              else - bitlen (- \<lfloor>- (1 / \<bar>x\<bar>)\<rfloor> - 1))"

text \<open>Rounding to the nearest integer, a tie going to the even one.\<close>

definition roundHalfEven :: "real \<Rightarrow> int" where
  "roundHalfEven y =
     (let f = \<lfloor>y\<rfloor>
      in if y - of_int f < 1 / 2 then f
         else if y - of_int f > 1 / 2 then f + 1
         else if even f then f else f + 1)"

text \<open>
  The spacing of the binary64 values around \<open>x\<close>: 53 significant bits, and the fixed
  spacing \<open>2 powi (- 1074)\<close> of the subnormal range.
\<close>

definition ulp64 :: "real \<Rightarrow> real" where
  "ulp64 x = 2 powi (max (expo2 x - 52) (- 1074))"

text \<open>
  Round to nearest, ties to even: the binary64 value that a decimal literal of the source
  denotes and that an arithmetic operation returns for the exact result \<open>x\<close>.
\<close>

definition round64 :: "real \<Rightarrow> real" where
  "round64 x = (let u = ulp64 x in of_int (roundHalfEven (x / u)) * u)"

text \<open>The operators \<^verbatim>\<open>+\<close>, \<^verbatim>\<open>-\<close> and \<^verbatim>\<open>*\<close> of the source on numbers.
  \<^verbatim>\<open>Math.abs\<close> is exact.\<close>

definition add64 :: "real \<Rightarrow> real \<Rightarrow> real" where
  "add64 x y = round64 (x + y)"

definition sub64 :: "real \<Rightarrow> real \<Rightarrow> real" where
  "sub64 x y = round64 (x - y)"

definition mul64 :: "real \<Rightarrow> real \<Rightarrow> real" where
  "mul64 x y = round64 (x * y)"

section \<open>Configuration (config.ts)\<close>

text \<open>\<^verbatim>\<open>interface PairConfig\<close> and the table \<^verbatim>\<open>PAIR_CONFIGS\<close> of config.ts. The
  decimal literals of the table denote their nearest binary64 values; the pip multipliers
  are integers and exact.\<close>

record PairConfig =
  symbol :: string
  displayName :: string
  tolerance :: real
  slBuffer :: real
  pipMultiplier :: real

fun PAIR_CONFIGS :: "Pair \<Rightarrow> PairConfig" where
  "PAIR_CONFIGS EUR_USD = \<lparr>symbol = ''EUR_USD'', displayName = ''EUR/USD'',
     tolerance = round64 0.00002, slBuffer = round64 0.0002, pipMultiplier = 10000\<rparr>"
| "PAIR_CONFIGS GBP_USD = \<lparr>symbol = ''GBP_USD'', displayName = ''GBP/USD'',
     tolerance = round64 0.00002, slBuffer = round64 0.0002, pipMultiplier = 10000\<rparr>"
| "PAIR_CONFIGS AUD_USD = \<lparr>symbol = ''AUD_USD'', displayName = ''AUD/USD'',
     tolerance = round64 0.00002, slBuffer = round64 0.0002, pipMultiplier = 10000\<rparr>"
| "PAIR_CONFIGS USD_JPY = \<lparr>symbol = ''USD_JPY'', displayName = ''USD/JPY'',
     tolerance = round64 0.002, slBuffer = round64 0.02, pipMultiplier = 100\<rparr>"
| "PAIR_CONFIGS XAU_USD = \<lparr>symbol = ''XAU_USD'', displayName = ''Gold (XAU/USD)'',
     tolerance = round64 0.02, slBuffer = round64 0.20, pipMultiplier = 10\<rparr>"

definition getTolerance :: "Pair \<Rightarrow> real" where
  "getTolerance pair = tolerance (PAIR_CONFIGS pair)"

definition getSLBuffer :: "Pair \<Rightarrow> real" where
  "getSLBuffer pair = slBuffer (PAIR_CONFIGS pair)"

definition getPipMultiplier :: "Pair \<Rightarrow> real" where
  "getPipMultiplier pair = pipMultiplier (PAIR_CONFIGS pair)"

text \<open>\<^verbatim>\<open>STRATEGY_CONFIG\<close>: the constants the engine reads.\<close>

definition SWING_LOOKBACK :: nat where
  "SWING_LOOKBACK = 3"

definition MAX_CANDLES_FOR_ENTRY :: nat where
  "MAX_CANDLES_FOR_ENTRY = 10"

definition MIN_SWING_POINTS :: nat where
  "MIN_SWING_POINTS = 4"

section \<open>Outcome evaluation (structure.ts)\<close>

text \<open>\<^verbatim>\<open>checkOutcome\<close>: the target is tested before the stop in both directions.\<close>

definition checkOutcome :: "TradeSetup \<Rightarrow> real \<Rightarrow> real \<Rightarrow> Outcome" where
  "checkOutcome setup currentHigh currentLow =
     (if direction setup = BUY then
        (if currentHigh \<ge> takeProfit setup then WIN
         else if currentLow \<le> stopLoss setup then LOSS
         else OPEN)
      else
        (if currentLow \<le> takeProfit setup then WIN
         else if currentHigh \<ge> stopLoss setup then LOSS
         else OPEN))"

section \<open>Signal-candle detection (wickless.ts)\<close>

text \<open>\<^verbatim>\<open>interface WicklessResult\<close>, fields prefixed \<open>wr_\<close>; \<^verbatim>\<open>null\<close> is \<open>None\<close>.\<close>

record WicklessResult =
  wr_isValid :: bool
  wr_direction :: "Direction option"
  wr_entryZone :: "real option"
  wr_candle :: "Candle option"

definition noSignal :: WicklessResult where
  "noSignal = \<lparr>wr_isValid = False, wr_direction = None, wr_entryZone = None,
                wr_candle = None\<rparr>"

text \<open>
  \<^verbatim>\<open>detectWickless\<close>. The source returns the no-signal object at four places (ranging
  trend, doji body, and the fall-through after the UP and the DOWN blocks); the two
  trend blocks are written here as one chain, since the UP block falls through to the
  DOWN block, whose guard \<^verbatim>\<open>trend === 'DOWN'\<close> is then false. The body size and
  the two wick bounds are computed with the rounding operations.
\<close>

definition detectWickless :: "Candle \<Rightarrow> Pair \<Rightarrow> Trend \<Rightarrow> WicklessResult" where
  "detectWickless candle pair trend =
     (if trend = RANGING then noSignal
      else
        let tol = getTolerance pair;
            bodySize = \<bar>sub64 (close candle) (open candle)\<bar>
        in if bodySize < tol then noSignal
           else if trend = UP
                   \<and> (close candle > open candle \<and> low candle \<ge> sub64 (open candle) tol)
             then \<lparr>wr_isValid = True, wr_direction = Some BUY,
                   wr_entryZone = Some (low candle), wr_candle = Some candle\<rparr>
           else if trend = DOWN
                   \<and> (close candle < open candle \<and> high candle \<le> add64 (open candle) tol)
             then \<lparr>wr_isValid = True, wr_direction = Some SELL,
                   wr_entryZone = Some (high candle), wr_candle = Some candle\<rparr>
           else noSignal)"

section \<open>Swing points (swingPoints.ts)\<close>

text \<open>
  The inner loop of \<^verbatim>\<open>findSwingPoints\<close>: \<open>j\<close> runs over \<open>1..lookback\<close>, the two
  flags start true and are only ever cleared, and the loop is left early once both are
  false. The list argument is the remaining values of \<open>j\<close>.
\<close>

fun neighbourLoop :: "Candle list \<Rightarrow> nat \<Rightarrow> nat list \<Rightarrow> bool \<times> bool \<Rightarrow> bool \<times> bool" where
  "neighbourLoop candles i [] (isSwingHigh, isSwingLow) = (isSwingHigh, isSwingLow)"
| "neighbourLoop candles i (j # js) (isSwingHigh, isSwingLow) =
     (let current = candles ! i;
          leftCandle = candles ! (i - j);
          rightCandle = candles ! (i + j);
          isSwingHigh' = (if high leftCandle \<ge> high current \<or> high rightCandle \<ge> high current
                          then False else isSwingHigh);
          isSwingLow' = (if low leftCandle \<le> low current \<or> low rightCandle \<le> low current
                         then False else isSwingLow)
      in if \<not> isSwingHigh' \<and> \<not> isSwingLow' then (isSwingHigh', isSwingLow')
         else neighbourLoop candles i js (isSwingHigh', isSwingLow'))"

text \<open>The outer loop: \<open>i\<close> runs over \<open>lookback ..< length - lookback\<close>; a HIGH is pushed
  before a LOW of the same candle.\<close>

fun swingLoop :: "Candle list \<Rightarrow> nat \<Rightarrow> nat list \<Rightarrow> SwingPoint list \<Rightarrow> SwingPoint list" where
  "swingLoop candles lookback [] swings = swings"
| "swingLoop candles lookback (i # is) swings =
     (let current = candles ! i;
          (isSwingHigh, isSwingLow) = neighbourLoop candles i [1..<Suc lookback] (True, True);
          swings1 = (if isSwingHigh
                     then swings @ [\<lparr>index = i, swingTime = time current,
                                     price = high current, swingType = HIGH\<rparr>]
                     else swings);
          swings2 = (if isSwingLow
                     then swings1 @ [\<lparr>index = i, swingTime = time current,
                                      price = low current, swingType = LOW\<rparr>]
                     else swings1)
      in swingLoop candles lookback is swings2)"

text \<open>\<^verbatim>\<open>Array.prototype.sort\<close> is stable, as is \<^const>\<open>sort_key\<close>.\<close>

definition findSwingPoints :: "Candle list \<Rightarrow> nat \<Rightarrow> SwingPoint list" where
  "findSwingPoints candles lookback =
     (if length candles < lookback * 2 + 1 then []
      else sort_key index
             (swingLoop candles lookback [lookback..<length candles - lookback] []))"

definition findSwingHighs :: "Candle list \<Rightarrow> nat \<Rightarrow> SwingPoint list" where
  "findSwingHighs candles lookback =
     filter (\<lambda>s. swingType s = HIGH) (findSwingPoints candles lookback)"

definition findSwingLows :: "Candle list \<Rightarrow> nat \<Rightarrow> SwingPoint list" where
  "findSwingLows candles lookback =
     filter (\<lambda>s. swingType s = LOW) (findSwingPoints candles lookback)"

definition getMostRecentSwingHigh :: "Candle list \<Rightarrow> nat \<Rightarrow> SwingPoint option" where
  "getMostRecentSwingHigh candles lookback =
     (let highs = findSwingHighs candles lookback
      in if length highs > 0 then Some (highs ! (length highs - 1)) else None)"

definition getMostRecentSwingLow :: "Candle list \<Rightarrow> nat \<Rightarrow> SwingPoint option" where
  "getMostRecentSwingLow candles lookback =
     (let lows = findSwingLows candles lookback
      in if length lows > 0 then Some (lows ! (length lows - 1)) else None)"

text \<open>The comparison helpers throw on a swing point of the wrong kind.\<close>

datatype error = Error string

definition isHigherHigh :: "SwingPoint \<Rightarrow> SwingPoint \<Rightarrow> error + bool" where
  "isHigherHigh current previous =
     (if swingType current \<noteq> HIGH \<or> swingType previous \<noteq> HIGH
      then Inl (Error ''Both swing points must be HIGHs'')
      else Inr (price current > price previous))"

definition isHigherLow :: "SwingPoint \<Rightarrow> SwingPoint \<Rightarrow> error + bool" where
  "isHigherLow current previous =
     (if swingType current \<noteq> LOW \<or> swingType previous \<noteq> LOW
      then Inl (Error ''Both swing points must be LOWs'')
      else Inr (price current > price previous))"

definition isLowerHigh :: "SwingPoint \<Rightarrow> SwingPoint \<Rightarrow> error + bool" where
  "isLowerHigh current previous =
     (if swingType current \<noteq> HIGH \<or> swingType previous \<noteq> HIGH
      then Inl (Error ''Both swing points must be HIGHs'')
      else Inr (price current < price previous))"

definition isLowerLow :: "SwingPoint \<Rightarrow> SwingPoint \<Rightarrow> error + bool" where
  "isLowerLow current previous =
     (if swingType current \<noteq> LOW \<or> swingType previous \<noteq> LOW
      then Inl (Error ''Both swing points must be LOWs'')
      else Inr (price current < price previous))"

text \<open>\<^verbatim>\<open>xs.slice(-n)\<close>: the last \<open>n\<close> elements, all of them when there are fewer.\<close>

definition sliceLast :: "nat \<Rightarrow> 'a list \<Rightarrow> 'a list" where
  "sliceLast n xs = drop (length xs - n) xs"

record SwingRelationships =
  highs :: "SwingPoint list"
  lows :: "SwingPoint list"
  hasHigherHigh :: "bool option"
  hasHigherLow :: "bool option"
  hasLowerHigh :: "bool option"
  hasLowerLow :: "bool option"

text \<open>One pair of comparisons of \<^verbatim>\<open>getSwingRelationships\<close>: both flags stay
  \<^verbatim>\<open>null\<close> with fewer than two points, and a throw of either helper is passed on.\<close>

definition comparePair ::
  "(SwingPoint \<Rightarrow> SwingPoint \<Rightarrow> error + bool) \<Rightarrow> (SwingPoint \<Rightarrow> SwingPoint \<Rightarrow> error + bool)
   \<Rightarrow> SwingPoint list \<Rightarrow> error + (bool option \<times> bool option)" where
  "comparePair higher lower pts =
     (if length pts \<ge> 2 then
        (case higher (pts ! 1) (pts ! 0) of
           Inl e \<Rightarrow> Inl e
         | Inr h \<Rightarrow> (case lower (pts ! 1) (pts ! 0) of
                       Inl e \<Rightarrow> Inl e
                     | Inr l \<Rightarrow> Inr (Some h, Some l)))
      else Inr (None, None))"

definition getSwingRelationships :: "Candle list \<Rightarrow> nat \<Rightarrow> error + SwingRelationships" where
  "getSwingRelationships candles lookback =
     (let swings = findSwingPoints candles lookback;
          hs = sliceLast 2 (filter (\<lambda>s. swingType s = HIGH) swings);
          ls = sliceLast 2 (filter (\<lambda>s. swingType s = LOW) swings)
      in case comparePair isHigherHigh isLowerHigh hs of
           Inl e \<Rightarrow> Inl e
         | Inr (hh, lh) \<Rightarrow>
             (case comparePair isHigherLow isLowerLow ls of
                Inl e \<Rightarrow> Inl e
              | Inr (hl, ll) \<Rightarrow>
                  Inr \<lparr>highs = hs, lows = ls, hasHigherHigh = hh, hasHigherLow = hl,
                       hasLowerHigh = lh, hasLowerLow = ll\<rparr>))"

definition getStructureForSL :: "Candle list \<Rightarrow> Direction \<Rightarrow> nat \<Rightarrow> SwingPoint option" where
  "getStructureForSL candles dir lookback =
     (if dir = BUY then getMostRecentSwingLow candles lookback
      else getMostRecentSwingHigh candles lookback)"

definition hasEnoughSwingPoints :: "Candle list \<Rightarrow> nat \<Rightarrow> nat \<Rightarrow> bool" where
  "hasEnoughSwingPoints candles lookback minRequired =
     (length (findSwingPoints candles lookback) \<ge> minRequired)"

section \<open>Trend classification (trend.ts)\<close>

text \<open>\<^verbatim>\<open>classifyTrend\<close> calls \<^verbatim>\<open>hasEnoughSwingPoints\<close> with the default minimum.\<close>

definition classifyTrend :: "Candle list \<Rightarrow> nat \<Rightarrow> error + Trend" where
  "classifyTrend candles lookback =
     (if \<not> hasEnoughSwingPoints candles lookback MIN_SWING_POINTS then Inr RANGING
      else case getSwingRelationships candles lookback of
             Inl e \<Rightarrow> Inl e
           | Inr rel \<Rightarrow>
               if hasHigherHigh rel = Some True \<and> hasHigherLow rel = Some True then Inr UP
               else if hasLowerHigh rel = Some True \<and> hasLowerLow rel = Some True then Inr DOWN
               else Inr RANGING)"

section \<open>Setup calculation and validation (structure.ts)\<close>

text \<open>\<^verbatim>\<open>calculateTradeSetup\<close>: the anchor is looked up with the default lookback;
  \<^verbatim>\<open>null\<close> is \<open>None\<close>. Stop, risk, target and risk in pips are each one rounding
  operation, as in the source.\<close>

definition calculateTradeSetup ::
  "Direction \<Rightarrow> real \<Rightarrow> Candle list \<Rightarrow> Pair \<Rightarrow> TradeSetup option" where
  "calculateTradeSetup dir entry candles pair =
     (let buffer = getSLBuffer pair
      in case getStructureForSL candles dir SWING_LOOKBACK of
           None \<Rightarrow> None
         | Some sp \<Rightarrow>
             if dir = BUY then
               (let sl = sub64 (price sp) buffer;
                    risk = sub64 entry sl;
                    tp = add64 entry risk
                in Some \<lparr>direction = dir, entryZone = entry, stopLoss = sl, takeProfit = tp,
                         riskPips = mul64 risk (getPipMultiplier pair),
                         structurePoint = sp\<rparr>)
             else
               (let sl = add64 (price sp) buffer;
                    risk = sub64 sl entry;
                    tp = sub64 entry risk
                in Some \<lparr>direction = dir, entryZone = entry, stopLoss = sl, takeProfit = tp,
                         riskPips = mul64 risk (getPipMultiplier pair),
                         structurePoint = sp\<rparr>))"

record ValidationResult =
  vr_valid :: bool
  vr_reason :: string

text \<open>
  \<^verbatim>\<open>validateSetup\<close>. The two number formatters of the JavaScript runtime used in the
  template strings, \<^verbatim>\<open>toFixed(1)\<close> and the default conversion of a number to a
  string, are parameters \<open>toFixed1\<close> and \<open>numToString\<close>. The \<open>pair\<close> argument is
  not read by the source.
\<close>

definition validateSetup ::
  "(real \<Rightarrow> string) \<Rightarrow> (real \<Rightarrow> string) \<Rightarrow> TradeSetup \<Rightarrow> Pair \<Rightarrow> real \<Rightarrow> real
   \<Rightarrow> ValidationResult" where
  "validateSetup toFixed1 numToString setup pair minPips maxPips =
     (if riskPips setup < minPips then
        \<lparr>vr_valid = False,
         vr_reason = ''Risk too small: '' @ toFixed1 (riskPips setup) @ '' pips (min: ''
                     @ numToString minPips @ '')''\<rparr>
      else if riskPips setup > maxPips then
        \<lparr>vr_valid = False,
         vr_reason = ''Risk too large: '' @ toFixed1 (riskPips setup) @ '' pips (max: ''
                     @ numToString maxPips @ '')''\<rparr>
      else if direction setup = BUY then
        (if entryZone setup \<le> stopLoss setup then
           \<lparr>vr_valid = False, vr_reason = ''Entry must be above Stop Loss for BUY''\<rparr>
         else if entryZone setup \<ge> takeProfit setup then
           \<lparr>vr_valid = False, vr_reason = ''Entry must be below Take Profit for BUY''\<rparr>
         else \<lparr>vr_valid = True, vr_reason = ''Setup is valid''\<rparr>)
      else
        (if entryZone setup \<ge> stopLoss setup then
           \<lparr>vr_valid = False, vr_reason = ''Entry must be below Stop Loss for SELL''\<rparr>
         else if entryZone setup \<le> takeProfit setup then
           \<lparr>vr_valid = False, vr_reason = ''Entry must be above Take Profit for SELL''\<rparr>
         else \<lparr>vr_valid = True, vr_reason = ''Setup is valid''\<rparr>))"

section \<open>Retracement monitoring (retracement.ts)\<close>

text \<open>\<^verbatim>\<open>interface RetracementCheck\<close>, fields prefixed \<open>rc_\<close>.\<close>

record RetracementCheck =
  rc_triggered :: bool
  rc_entryPrice :: "real option"
  rc_triggerCandle :: "Candle option"
  rc_candlesElapsed :: nat

text \<open>
  The loop of \<^verbatim>\<open>checkRetracement\<close> over \<^verbatim>\<open>candlesToCheck\<close>, from position \<open>i\<close> on:
  \<open>Some\<close> is the early return of a trigger, \<open>None\<close> is the loop running to its end.
\<close>

fun retracementLoop ::
  "Direction \<Rightarrow> real \<Rightarrow> Candle list \<Rightarrow> nat \<Rightarrow> RetracementCheck option" where
  "retracementLoop dir entry [] i = None"
| "retracementLoop dir entry (candle # rest) i =
     (if \<not> complete candle then retracementLoop dir entry rest (i + 1)
      else if dir = BUY then
        (if low candle \<le> entry
         then Some \<lparr>rc_triggered = True, rc_entryPrice = Some entry,
                    rc_triggerCandle = Some candle, rc_candlesElapsed = i + 1\<rparr>
         else retracementLoop dir entry rest (i + 1))
      else
        (if high candle \<ge> entry
         then Some \<lparr>rc_triggered = True, rc_entryPrice = Some entry,
                    rc_triggerCandle = Some candle, rc_candlesElapsed = i + 1\<rparr>
         else retracementLoop dir entry rest (i + 1)))"

definition checkRetracement :: "Direction \<Rightarrow> real \<Rightarrow> Candle list \<Rightarrow> RetracementCheck" where
  "checkRetracement dir entry subsequentCandles =
     (let maxCandles = MAX_CANDLES_FOR_ENTRY;
          candlesToCheck = take maxCandles subsequentCandles
      in case retracementLoop dir entry candlesToCheck 0 of
           Some r \<Rightarrow> r
         | None \<Rightarrow> \<lparr>rc_triggered = False, rc_entryPrice = None, rc_triggerCandle = None,
                     rc_candlesElapsed = length candlesToCheck\<rparr>)"

definition isSetupExpired :: "nat \<Rightarrow> bool" where
  "isSetupExpired n = (n \<ge> MAX_CANDLES_FOR_ENTRY)"

text \<open>\<^verbatim>\<open>interface ActiveSetup\<close>, fields prefixed \<open>as_\<close>. Its \<^verbatim>\<open>pair\<close> field is
  declared a string and only ever holds and is compared with a \<^verbatim>\<open>Pair\<close>.\<close>

record ActiveSetup =
  as_id :: string
  as_pair :: Pair
  as_timeframe :: Timeframe
  as_direction :: Direction
  as_signalCandleTime :: string
  as_signalCandleOpen :: real
  as_signalCandleHigh :: real
  as_signalCandleLow :: real
  as_signalCandleClose :: real
  as_entryZone :: real
  as_stopLoss :: real
  as_takeProfit :: real
  as_candlesElapsed :: nat
  as_status :: SetupStatus
  as_createdAt :: string

record MonitorResult =
  triggered :: "ActiveSetup list"
  expired :: "ActiveSetup list"
  stillActive :: "ActiveSetup list"

text \<open>The loop of \<^verbatim>\<open>monitorSetups\<close>; every push copies the setup (object spread), the
  setups of the argument list are not written to.\<close>

fun monitorLoop :: "ActiveSetup list \<Rightarrow> Candle \<Rightarrow> MonitorResult \<Rightarrow> MonitorResult" where
  "monitorLoop [] newCandle acc = acc"
| "monitorLoop (setup # rest) newCandle acc =
     (if as_status setup \<noteq> WAITING then monitorLoop rest newCandle acc
      else
        let newCandlesElapsed = as_candlesElapsed setup + 1;
            isTriggered = (if as_direction setup = BUY
                           then low newCandle \<le> as_entryZone setup
                           else high newCandle \<ge> as_entryZone setup)
        in if isTriggered then
             monitorLoop rest newCandle
               (acc\<lparr>triggered := triggered acc @
                  [setup\<lparr>as_candlesElapsed := newCandlesElapsed, as_status := TRIGGERED\<rparr>]\<rparr>)
           else if isSetupExpired newCandlesElapsed then
             monitorLoop rest newCandle
               (acc\<lparr>expired := expired acc @
                  [setup\<lparr>as_candlesElapsed := newCandlesElapsed, as_status := EXPIRED\<rparr>]\<rparr>)
           else
             monitorLoop rest newCandle
               (acc\<lparr>stillActive := stillActive acc @
                  [setup\<lparr>as_candlesElapsed := newCandlesElapsed\<rparr>]\<rparr>))"

definition monitorSetups :: "ActiveSetup list \<Rightarrow> Candle \<Rightarrow> MonitorResult" where
  "monitorSetups setups newCandle =
     monitorLoop setups newCandle \<lparr>triggered = [], expired = [], stillActive = []\<rparr>"

section \<open>The in-memory signal manager (signalManager.ts)\<close>

text \<open>\<^verbatim>\<open>interface Signal\<close>, fields prefixed \<open>sg_\<close>.\<close>

record Signal =
  sg_id :: string
  sg_setupId :: string
  sg_pair :: Pair
  sg_timeframe :: Timeframe
  sg_direction :: Direction
  sg_entryPrice :: real
  sg_stopLoss :: real
  sg_takeProfit :: real
  sg_entryTime :: string
  sg_outcome :: "Outcome option"
  sg_outcomeTime :: "string option"
  sg_createdAt :: string

text \<open>
  \<^verbatim>\<open>createSignal\<close> draws the identifier from \<^verbatim>\<open>generateId()\<close> and the creation
  time from the clock; both are arguments here.
\<close>

definition createSignal :: "string \<Rightarrow> string \<Rightarrow> ActiveSetup \<Rightarrow> string \<Rightarrow> Signal" where
  "createSignal newId now setup entryTime =
     \<lparr>sg_id = newId, sg_setupId = as_id setup, sg_pair = as_pair setup,
      sg_timeframe = as_timeframe setup, sg_direction = as_direction setup,
      sg_entryPrice = as_entryZone setup, sg_stopLoss = as_stopLoss setup,
      sg_takeProfit = as_takeProfit setup, sg_entryTime = entryTime,
      sg_outcome = None, sg_outcomeTime = None, sg_createdAt = now\<rparr>"

text \<open>
  The fields of \<^verbatim>\<open>class SignalManager\<close>. A JavaScript \<^verbatim>\<open>Map\<close> keeps its keys in
  insertion order: it is an association list changed with \<^const>\<open>AList.update\<close> (an
  existing key keeps its place, a new key goes to the end) and \<^const>\<open>AList.delete\<close>.
\<close>

record SignalManager =
  activeSetups :: "(string \<times> ActiveSetup) list"
  triggeredSignals :: "(string \<times> Signal) list"
  expiredSetups :: "ActiveSetup list"
  completedSignals :: "Signal list"

definition newSignalManager :: SignalManager where
  "newSignalManager = \<lparr>activeSetups = [], triggeredSignals = [], expiredSetups = [],
                        completedSignals = []\<rparr>"

definition addSetup :: "SignalManager \<Rightarrow> ActiveSetup \<Rightarrow> SignalManager" where
  "addSetup m setup = m\<lparr>activeSetups := AList.update (as_id setup) setup (activeSetups m)\<rparr>"

definition getActiveSetups :: "SignalManager \<Rightarrow> ActiveSetup list" where
  "getActiveSetups m = map snd (activeSetups m)"

definition hasExistingSetup :: "SignalManager \<Rightarrow> Pair \<Rightarrow> string \<Rightarrow> bool" where
  "hasExistingSetup m pair signalCandleTime =
     list_ex (\<lambda>s. as_pair s = pair \<and> as_signalCandleTime s = signalCandleTime)
       (getActiveSetups m)"

text \<open>The three loops of \<^verbatim>\<open>processNewCandle\<close>. The first also collects the new
  signals; \<open>gen k\<close> is the identifier of the \<open>k\<close>-th signal created by the call.\<close>

fun processTriggered ::
  "(nat \<Rightarrow> string) \<Rightarrow> string \<Rightarrow> Candle \<Rightarrow> ActiveSetup list \<Rightarrow> nat
   \<Rightarrow> SignalManager \<times> Signal list \<Rightarrow> SignalManager \<times> Signal list" where
  "processTriggered gen now candle [] k (m, triggeredSignalsOut) = (m, triggeredSignalsOut)"
| "processTriggered gen now candle (setup0 # rest) k (m, triggeredSignalsOut) =
     (let setup = setup0\<lparr>as_status := TRIGGERED\<rparr>;
          m1 = m\<lparr>activeSetups := AList.update (as_id setup) setup (activeSetups m)\<rparr>;
          signal = createSignal (gen k) now setup (time candle);
          m2 = m1\<lparr>triggeredSignals :=
                    AList.update (sg_id signal) signal (triggeredSignals m1)\<rparr>;
          m3 = m2\<lparr>activeSetups := AList.delete (as_id setup) (activeSetups m2)\<rparr>
      in processTriggered gen now candle rest (k + 1) (m3, triggeredSignalsOut @ [signal]))"

fun processExpired :: "ActiveSetup list \<Rightarrow> SignalManager \<Rightarrow> SignalManager" where
  "processExpired [] m = m"
| "processExpired (setup0 # rest) m =
     (let setup = setup0\<lparr>as_status := EXPIRED\<rparr>
      in processExpired rest
           (m\<lparr>expiredSetups := expiredSetups m @ [setup],
              activeSetups := AList.delete (as_id setup) (activeSetups m)\<rparr>))"

fun processStillActive :: "ActiveSetup list \<Rightarrow> SignalManager \<Rightarrow> SignalManager" where
  "processStillActive [] m = m"
| "processStillActive (setup # rest) m =
     processStillActive rest
       (m\<lparr>activeSetups := AList.update (as_id setup) setup (activeSetups m)\<rparr>)"

record ProcessResult =
  pr_triggered :: "Signal list"
  pr_expired :: "ActiveSetup list"
  pr_stillActive :: "ActiveSetup list"

definition processNewCandle ::
  "(nat \<Rightarrow> string) \<Rightarrow> string \<Rightarrow> SignalManager \<Rightarrow> Pair \<Rightarrow> Timeframe \<Rightarrow> Candle
   \<Rightarrow> SignalManager \<times> ProcessResult" where
  "processNewCandle gen now m pair timeframe candle =
     (let relevantSetups =
            filter (\<lambda>s. as_pair s = pair \<and> as_timeframe s = timeframe \<and> as_status s = WAITING)
              (getActiveSetups m);
          result = monitorSetups relevantSetups candle;
          (m1, triggeredSignalsOut) =
            processTriggered gen now candle (triggered result) 0 (m, []);
          m2 = processExpired (expired result) m1;
          m3 = processStillActive (stillActive result) m2
      in (m3, \<lparr>pr_triggered = triggeredSignalsOut,
                pr_expired = map (\<lambda>s. s\<lparr>as_status := EXPIRED\<rparr>) (expired result),
                pr_stillActive = stillActive result\<rparr>))"

section \<open>Specification-level predicates and example data\<close>

text \<open>
  The entry condition of the specification: a BUY is reached when the candle's low is at or
  below the entry zone, a SELL when the candle's high is at or above it.
\<close>

definition entryReached :: "Direction \<Rightarrow> real \<Rightarrow> Candle \<Rightarrow> bool" where
  "entryReached dir entry c = (if dir = BUY then low c \<le> entry else high c \<ge> entry)"

text \<open>
  The swing conditions of the specification: the high (low) of candle \<open>i\<close> is strictly
  above (below) the highs (lows) of the \<open>lookback\<close> candles on each side.
\<close>

definition strictHighOver :: "Candle list \<Rightarrow> nat \<Rightarrow> nat \<Rightarrow> bool" where
  "strictHighOver cs lookback i =
     (\<forall>j\<in>{1..lookback}. high (cs ! (i - j)) < high (cs ! i) \<and> high (cs ! (i + j)) < high (cs ! i))"

definition strictLowUnder :: "Candle list \<Rightarrow> nat \<Rightarrow> nat \<Rightarrow> bool" where
  "strictLowUnder cs lookback i =
     (\<forall>j\<in>{1..lookback}. low (cs ! i) < low (cs ! (i - j)) \<and> low (cs ! i) < low (cs ! (i + j)))"

text \<open>The swing points that candle \<open>i\<close> contributes: its HIGH first, then its LOW.\<close>

definition swingsAt :: "Candle list \<Rightarrow> nat \<Rightarrow> nat \<Rightarrow> SwingPoint list" where
  "swingsAt cs lookback i =
     (if strictHighOver cs lookback i
      then [\<lparr>index = i, swingTime = time (cs ! i), price = high (cs ! i), swingType = HIGH\<rparr>]
      else [])
     @ (if strictLowUnder cs lookback i
        then [\<lparr>index = i, swingTime = time (cs ! i), price = low (cs ! i), swingType = LOW\<rparr>]
        else [])"

text \<open>Candles and setups for the concrete instances below.\<close>

definition exampleCandle :: "real \<Rightarrow> real \<Rightarrow> bool \<Rightarrow> Candle" where
  "exampleCandle h l fin = \<lparr>time = ''t'', open = l, high = h, low = l, close = h, complete = fin\<rparr>"

definition exampleSetup :: "string \<Rightarrow> Direction \<Rightarrow> real \<Rightarrow> nat \<Rightarrow> SetupStatus \<Rightarrow> ActiveSetup" where
  "exampleSetup sid dir entry n st =
     \<lparr>as_id = sid, as_pair = EUR_USD, as_timeframe = M15, as_direction = dir,
      as_signalCandleTime = ''t0'', as_signalCandleOpen = entry, as_signalCandleHigh = entry,
      as_signalCandleLow = entry, as_signalCandleClose = entry, as_entryZone = entry,
      as_stopLoss = entry, as_takeProfit = entry, as_candlesElapsed = n, as_status = st,
      as_createdAt = ''now''\<rparr>"

text \<open>Seven candles with equal highs whose low dips to an anchor at position 3: with
  lookback 3 the only swing point is the LOW at position 3. The anchor is the binary64
  value of the literal 1.0950; the other values are held exactly by binary64.\<close>

definition exampleDip :: "Candle list" where
  "exampleDip = [exampleCandle 1.5 1.125 True, exampleCandle 1.5 1.125 True,
                 exampleCandle 1.5 1.125 True, exampleCandle 1.5 (round64 1.0950) True,
                 exampleCandle 1.5 1.125 True, exampleCandle 1.5 1.125 True,
                 exampleCandle 1.5 1.125 True]"

text \<open>The same shape at the scale of USD/JPY, with the anchor 127.5.\<close>

definition exampleDipJPY :: "Candle list" where
  "exampleDipJPY = [exampleCandle 129 128 True, exampleCandle 129 128 True,
                    exampleCandle 129 128 True, exampleCandle 129 127.5 True,
                    exampleCandle 129 128 True, exampleCandle 129 128 True,
                    exampleCandle 129 128 True]"

text \<open>And at the scale of gold, with the anchor at the binary64 value of 2048.2.\<close>

definition exampleDipXAU :: "Candle list" where
  "exampleDipXAU = [exampleCandle 2060 2050 True, exampleCandle 2060 2050 True,
                    exampleCandle 2060 2050 True, exampleCandle 2060 (round64 2048.2) True,
                    exampleCandle 2060 2050 True, exampleCandle 2060 2050 True,
                    exampleCandle 2060 2050 True]"

text \<open>The mirror image: equal lows and a high that peaks at the binary64 value of
  1.1050 at position 3, so that the only swing point is the HIGH at position 3.\<close>

definition examplePeak :: "Candle list" where
  "examplePeak = [exampleCandle 1.0625 1 True, exampleCandle 1.0625 1 True,
                  exampleCandle 1.0625 1 True, exampleCandle (round64 1.1050) 1 True,
                  exampleCandle 1.0625 1 True, exampleCandle 1.0625 1 True,
                  exampleCandle 1.0625 1 True]"

text \<open>Single candles for the signal detection, given by the decimal literals of open,
  low and close (bullish candles, whose high is not read) or of open, high and close
  (bearish candles, whose low is not read).\<close>

definition exampleBull :: "real \<Rightarrow> real \<Rightarrow> real \<Rightarrow> Candle" where
  "exampleBull opn lo cls =
     \<lparr>time = ''t'', open = round64 opn, high = 2, low = round64 lo,
      close = round64 cls, complete = True\<rparr>"

definition exampleBear :: "real \<Rightarrow> real \<Rightarrow> real \<Rightarrow> Candle" where
  "exampleBear opn hi cls =
     \<lparr>time = ''t'', open = round64 opn, high = round64 hi, low = 1,
      close = round64 cls, complete = True\<rparr>"

text \<open>An identifier generator for the signals of the in-memory manager.\<close>

definition exampleGen :: "nat \<Rightarrow> string" where
  "exampleGen k = ''sig''"

section \<open>Properties of the binary64 rounding\<close>

text \<open>Rounding to an integer is within one half, fixes the integers, is monotone and
  odd.\<close>

lemma roundHalfEven_error: "\<bar>of_int (roundHalfEven y) - y\<bar> \<le> 1 / 2"
proof -
  have "of_int \<lfloor>y\<rfloor> \<le> y" "y < of_int \<lfloor>y\<rfloor> + 1" by linarith+
  then show ?thesis
    unfolding roundHalfEven_def Let_def by (simp add: abs_if; linarith)
qed




text \<open>The exponent brackets the magnitude, so \<open>ulp64\<close> is the spacing of the 53-bit
  values in the binade of \<open>x\<close>; \<open>round64\<close> is within half a spacing of its argument, is
  odd and is monotone.\<close>

lemma bitlen_pos: "0 < n \<Longrightarrow> 1 \<le> bitlen n"
  using bitlen_bounds [of n] by (cases "bitlen n \<le> 0") auto

lemma expo2_bounds:
  assumes "x \<noteq> 0"
  shows "2 powi expo2 x \<le> \<bar>x\<bar> \<and> \<bar>x\<bar> < 2 powi (expo2 x + 1)"
proof (cases "\<bar>x\<bar> \<ge> 1")
  case True
  define n where "n = \<lfloor>\<bar>x\<bar>\<rfloor>"
  have n1: "1 \<le> n" using True by (simp add: n_def)
  then have npos: "0 < n" by simp
  have b1: "1 \<le> bitlen n" using npos by (rule bitlen_pos)
  have A: "2 ^ nat (bitlen n - 1) \<le> n" and B: "n < 2 ^ nat (bitlen n)"
    using bitlen_bounds [OF npos] by simp_all
  have e: "expo2 x = bitlen n - 1" using True by (simp add: expo2_def n_def)
  have lo: "of_int n \<le> \<bar>x\<bar>" and hi: "\<bar>x\<bar> < of_int n + 1"
    unfolding n_def by linarith+
  have "(2::real) powi (bitlen n - 1) = 2 ^ nat (bitlen n - 1)"
    using b1 by (simp add: power_int_nonneg_exp)
  also have "\<dots> = of_int (2 ^ nat (bitlen n - 1))" by simp
  also have "\<dots> \<le> of_int n" using A by (simp only: of_int_le_iff)
  finally have L: "(2::real) powi (bitlen n - 1) \<le> \<bar>x\<bar>" using lo by linarith
  have "n + 1 \<le> 2 ^ nat (bitlen n)" using B by simp
  then have "(of_int (n + 1) :: real) \<le> of_int (2 ^ nat (bitlen n))"
    by (simp only: of_int_le_iff)
  then have "\<bar>x\<bar> < 2 ^ nat (bitlen n)" using hi by simp
  also have "(2::real) ^ nat (bitlen n) = 2 powi (bitlen n - 1 + 1)"
    using b1 by (simp add: power_int_nonneg_exp)
  finally have U: "\<bar>x\<bar> < 2 powi (bitlen n - 1 + 1)" .
  from L U show ?thesis unfolding e by simp
next
  case False
  then have a1: "\<bar>x\<bar> < 1" by simp
  have apos: "0 < \<bar>x\<bar>" using assms by simp
  define y where "y = 1 / \<bar>x\<bar>"
  have y1: "1 < y" using a1 apos by (simp add: y_def)
  define m where "m = \<lceil>y\<rceil> - 1"
  have m1: "1 \<le> m" using y1 by (simp add: m_def less_ceiling_iff)
  then have mpos: "0 < m" by simp
  have b1: "1 \<le> bitlen m" using mpos by (rule bitlen_pos)
  have A: "2 ^ nat (bitlen m - 1) \<le> m" and B: "m < 2 ^ nat (bitlen m)"
    using bitlen_bounds [OF mpos] by simp_all
  have e: "expo2 x = - bitlen m" using False by (simp add: expo2_def m_def y_def ceiling_def)
  have lo: "of_int m < y" and hi: "y \<le> of_int m + 1"
    unfolding m_def by linarith+
  have "m + 1 \<le> 2 ^ nat (bitlen m)" using B by simp
  then have "(of_int (m + 1) :: real) \<le> of_int (2 ^ nat (bitlen m))"
    by (simp only: of_int_le_iff)
  then have yU: "y \<le> 2 ^ nat (bitlen m)" using hi by simp
  have "(2::real) ^ nat (bitlen m - 1) \<le> of_int m"
    using A by simp
  then have yL: "2 ^ nat (bitlen m - 1) < y" using lo by linarith
  have p1: "(2::real) powi (- bitlen m) = 1 / 2 ^ nat (bitlen m)"
    using b1 by (simp add: power_int_minus_divide power_int_nonneg_exp)
  have p2: "(2::real) powi (- bitlen m + 1) = 1 / 2 ^ nat (bitlen m - 1)"
  proof -
    have "- bitlen m + 1 = - (bitlen m - 1)" by simp
    then show ?thesis using b1
      by (simp only: power_int_minus_divide) (simp add: power_int_nonneg_exp)
  qed
  have L: "1 / 2 ^ nat (bitlen m) \<le> \<bar>x\<bar>"
    using yU apos unfolding y_def by (simp add: field_simps)
  have U: "\<bar>x\<bar> < 1 / 2 ^ nat (bitlen m - 1)"
    using yL apos unfolding y_def by (simp add: field_simps)
  from L U show ?thesis unfolding e p1 p2 by simp
qed

lemma round64_alt: "round64 x = of_int (roundHalfEven (x / ulp64 x)) * ulp64 x"
  by (simp add: round64_def Let_def)

lemma ulp64_pos: "0 < ulp64 x"
  by (simp add: ulp64_def)

lemma ulp64_minus: "ulp64 (- x) = ulp64 x"
  by (simp add: ulp64_def expo2_def)


lemma round64_zero: "round64 0 = 0"
  by (simp add: round64_alt roundHalfEven_def)

lemma round64_error: "\<bar>round64 x - x\<bar> \<le> ulp64 x / 2"
proof -
  let ?u = "ulp64 x"
  have u: "0 < ?u" by (rule ulp64_pos)
  have "round64 x - x = (of_int (roundHalfEven (x / ?u)) - x / ?u) * ?u"
    using u by (simp add: round64_alt left_diff_distrib)
  then have "\<bar>round64 x - x\<bar> = \<bar>of_int (roundHalfEven (x / ?u)) - x / ?u\<bar> * \<bar>?u\<bar>"
    by (simp only: abs_mult)
  also have "\<dots> = \<bar>of_int (roundHalfEven (x / ?u)) - x / ?u\<bar> * ?u"
    using u by simp
  also have "\<dots> \<le> (1 / 2) * ?u"
    using roundHalfEven_error [of "x / ?u"] u by (intro mult_right_mono) simp_all
  finally show ?thesis by simp
qed






text \<open>Two well-known binary64 facts as a check of the definitions: the value of the
  literal 0.1, and \<open>0.1 + 0.2\<close>, which is one spacing above the value of the literal 0.3.\<close>

lemma round64_known_values:
  "round64 0.1 = 3602879701896397 / 36028797018963968
   \<and> add64 (round64 0.1) (round64 0.2) = 1351079888211149 / 4503599627370496
   \<and> add64 (round64 0.1) (round64 0.2) = round64 0.3 + ulp64 0.3"
  by code_simp

section \<open>Properties of the outcome evaluation\<close>

text \<open>
  Claim C2. For every setup and every high/low pair, \<open>checkOutcome\<close> answers WIN exactly
  when the target condition of the setup's direction holds (BUY: high at or above the take
  profit; SELL: low at or below the take profit), LOSS exactly when the target condition
  fails and the stop condition holds (BUY: low at or below the stop; SELL: high at or above
  the stop), and OPEN exactly when both fail. Hence a candle on which target and stop
  conditions hold together yields WIN and never LOSS.
\<close>

theorem checkOutcome_spec:
  fixes s :: TradeSetup and h l :: real
  defines "target \<equiv> (if direction s = BUY then h \<ge> takeProfit s else l \<le> takeProfit s)"
    and "stop \<equiv> (if direction s = BUY then l \<le> stopLoss s else h \<ge> stopLoss s)"
  shows "(checkOutcome s h l = WIN \<longleftrightarrow> target)
       \<and> (checkOutcome s h l = LOSS \<longleftrightarrow> \<not> target \<and> stop)
       \<and> (checkOutcome s h l = OPEN \<longleftrightarrow> \<not> target \<and> \<not> stop)
       \<and> (target \<and> stop \<longrightarrow> checkOutcome s h l = WIN \<and> checkOutcome s h l \<noteq> LOSS)"
  unfolding target_def stop_def checkOutcome_def
  by (cases "direction s") simp_all

text \<open>Scenario D of the specification: a BUY with stop 1.0948 and target 1.1050 against
  a candle with high 1.1051 and low 1.0947, where both conditions hold; and its mirror
  image for a SELL.\<close>

theorem checkOutcome_spec_witness:
  "(1.1051::real) \<ge> 1.1050 \<and> (1.0947::real) \<le> 1.0948
   \<and> checkOutcome \<lparr>direction = BUY, entryZone = 1.0999, stopLoss = 1.0948,
        takeProfit = 1.1050, riskPips = 0,
        structurePoint = \<lparr>index = 0, swingTime = '''', price = 0, swingType = LOW\<rparr>\<rparr>
        1.1051 1.0947 = WIN
   \<and> (1.0949::real) \<le> 1.0950 \<and> (1.1053::real) \<ge> 1.1052
   \<and> checkOutcome \<lparr>direction = SELL, entryZone = 1.1001, stopLoss = 1.1052,
        takeProfit = 1.0950, riskPips = 0,
        structurePoint = \<lparr>index = 0, swingTime = '''', price = 0, swingType = LOW\<rparr>\<rparr>
        1.1053 1.0949 = WIN"
  using checkOutcome_spec [of "\<lparr>direction = BUY, entryZone = 1.0999, stopLoss = 1.0948,
        takeProfit = 1.1050, riskPips = 0,
        structurePoint = \<lparr>index = 0, swingTime = '''', price = 0, swingType = LOW\<rparr>\<rparr>"
        "1.1051" "1.0947"]
    checkOutcome_spec [of "\<lparr>direction = SELL, entryZone = 1.1001, stopLoss = 1.1052,
        takeProfit = 1.0950, riskPips = 0,
        structurePoint = \<lparr>index = 0, swingTime = '''', price = 0, swingType = LOW\<rparr>\<rparr>"
        "1.1053" "1.0949"]
  by simp

section \<open>Properties of the signal-candle detection\<close>

text \<open>
  Claim C5 as stated, with \<open>open - \<epsilon>\<close> read as the exact difference, fails in both
  directions. For AUD/USD under UP, the candle with open 0.6, low 0.59998 and close 0.6008
  is a valid BUY for the code, because the code's \<open>0.6 - 0.00002\<close> rounds to the binary64
  value of 0.59998, although the candle's low is below the exact difference of its open and
  the tolerance. For EUR/USD under UP, the candle with open 1.1, low 1.09998 and close
  1.1008 gets no signal, because the code's \<open>1.1 - 0.00002\<close> rounds to a value above the
  candle's low, although the decimal values satisfy \<open>1.09998 \<ge> 1.1 - 0.00002\<close>.
\<close>

theorem detectWickless_exact_counterexample:
  "wr_isValid (detectWickless (exampleBull 0.6 0.59998 0.6008) AUD_USD UP)
   \<and> \<not> (low (exampleBull 0.6 0.59998 0.6008)
          \<ge> open (exampleBull 0.6 0.59998 0.6008) - getTolerance AUD_USD)
   \<and> \<not> wr_isValid (detectWickless (exampleBull 1.1 1.09998 1.1008) EUR_USD UP)
   \<and> (1.09998::real) \<ge> 1.1 - 0.00002"
  by code_simp

text \<open>
  Claim C5, amended. For every candle, pair and trend, \<open>detectWickless\<close> returns a valid
  signal exactly when the trend is UP, the candle closes above its open, its low is at
  least the binary64 difference of open and the pair's tolerance, and the magnitude of the
  binary64 difference of close and open is at least the tolerance; or the trend is DOWN,
  the candle closes below its open, its high is at most the binary64 sum of open and the
  tolerance, and the same body test holds. A valid signal under UP is a BUY whose entry
  zone is the candle's low, under DOWN a SELL whose entry zone is the candle's high. No
  signal is produced under a RANGING trend or for a body below the tolerance.
\<close>

theorem detectWickless_spec:
  fixes c :: Candle and p :: Pair and t :: Trend
  shows "(wr_isValid (detectWickless c p t) \<longleftrightarrow>
            (t = UP \<and> close c > open c \<and> low c \<ge> sub64 (open c) (getTolerance p)
               \<and> \<bar>sub64 (close c) (open c)\<bar> \<ge> getTolerance p)
          \<or> (t = DOWN \<and> close c < open c \<and> high c \<le> add64 (open c) (getTolerance p)
               \<and> \<bar>sub64 (close c) (open c)\<bar> \<ge> getTolerance p))
       \<and> (wr_isValid (detectWickless c p t) \<and> t = UP \<longrightarrow>
            detectWickless c p t = \<lparr>wr_isValid = True, wr_direction = Some BUY,
              wr_entryZone = Some (low c), wr_candle = Some c\<rparr>)
       \<and> (wr_isValid (detectWickless c p t) \<and> t = DOWN \<longrightarrow>
            detectWickless c p t = \<lparr>wr_isValid = True, wr_direction = Some SELL,
              wr_entryZone = Some (high c), wr_candle = Some c\<rparr>)
       \<and> (\<not> wr_isValid (detectWickless c p t) \<longrightarrow> detectWickless c p t = noSignal)
       \<and> (t = RANGING \<or> \<bar>sub64 (close c) (open c)\<bar> < getTolerance p \<longrightarrow>
            \<not> wr_isValid (detectWickless c p t))"
  by (cases t) (auto simp: detectWickless_def noSignal_def Let_def)

text \<open>The evaluations used by the instances: a bullish candle whose low is 0.00001 below
  its open, a bearish one whose high is 0.00001 above its open, and a doji.\<close>

lemma detectWickless_examples:
  "wr_isValid (detectWickless (exampleBull 1.1 1.09999 1.1008) EUR_USD UP)
   \<and> wr_isValid (detectWickless (exampleBear 1.1008 1.10081 1.1) EUR_USD DOWN)
   \<and> \<bar>sub64 (close (exampleBull 1.1 1.09999 1.10001))
            (open (exampleBull 1.1 1.09999 1.10001))\<bar> < getTolerance EUR_USD"
  by code_simp

text \<open>The bullish candle gives a BUY at its low under UP and nothing under RANGING, the
  bearish one a SELL at its high under DOWN, the doji nothing.\<close>

theorem detectWickless_spec_witness:
  "detectWickless (exampleBull 1.1 1.09999 1.1008) EUR_USD UP
     = \<lparr>wr_isValid = True, wr_direction = Some BUY,
        wr_entryZone = Some (low (exampleBull 1.1 1.09999 1.1008)),
        wr_candle = Some (exampleBull 1.1 1.09999 1.1008)\<rparr>
   \<and> low (exampleBull 1.1 1.09999 1.1008)
       \<ge> sub64 (open (exampleBull 1.1 1.09999 1.1008)) (getTolerance EUR_USD)
   \<and> detectWickless (exampleBear 1.1008 1.10081 1.1) EUR_USD DOWN
     = \<lparr>wr_isValid = True, wr_direction = Some SELL,
        wr_entryZone = Some (high (exampleBear 1.1008 1.10081 1.1)),
        wr_candle = Some (exampleBear 1.1008 1.10081 1.1)\<rparr>
   \<and> high (exampleBear 1.1008 1.10081 1.1)
       \<le> add64 (open (exampleBear 1.1008 1.10081 1.1)) (getTolerance EUR_USD)
   \<and> detectWickless (exampleBull 1.1 1.09999 1.1008) EUR_USD RANGING = noSignal
   \<and> detectWickless (exampleBull 1.1 1.09999 1.10001) EUR_USD UP = noSignal"
  using detectWickless_spec [of "exampleBull 1.1 1.09999 1.1008" EUR_USD UP]
    detectWickless_spec [of "exampleBear 1.1008 1.10081 1.1" EUR_USD DOWN]
    detectWickless_spec [of "exampleBull 1.1 1.09999 1.1008" EUR_USD RANGING]
    detectWickless_spec [of "exampleBull 1.1 1.09999 1.10001" EUR_USD UP]
    detectWickless_examples
  by simp

text \<open>
  The candle of the specification's scenario A has its low 0.0001 below its open, which is
  more than the EUR/USD tolerance 0.00002 allows: the code gives no signal for it.
\<close>

lemma scenarioA_no_signal:
  "detectWickless (exampleBull 1.1000 1.0999 1.1008) EUR_USD UP = noSignal"
  by code_simp

section \<open>Properties of the setup validation\<close>

text \<open>
  Claim C9. For every setup, pair and band, \<open>validateSetup\<close> answers invalid exactly when
  the setup's risk in pips is below the minimum, or above the maximum, or the entry zone
  is not strictly between stop and target for the setup's direction (BUY: stop below
  entry below target; SELL: target below entry below stop); otherwise it answers valid.
  The reason string is never empty, whatever the two number formatters return. The
  function has no failing branch. A risk equal to either bound is therefore accepted.
\<close>

theorem validateSetup_spec:
  "(\<not> vr_valid (validateSetup toFixed1 numToString s p minPips maxPips) \<longleftrightarrow>
      riskPips s < minPips \<or> riskPips s > maxPips
      \<or> \<not> ((direction s = BUY \<and> stopLoss s < entryZone s \<and> entryZone s < takeProfit s)
           \<or> (direction s = SELL \<and> takeProfit s < entryZone s \<and> entryZone s < stopLoss s)))
   \<and> vr_reason (validateSetup toFixed1 numToString s p minPips maxPips) \<noteq> []"
  by (cases "direction s") (auto simp: validateSetup_def)

text \<open>A BUY whose risk is exactly the maximum of 50 pips is accepted; the setup of
  scenario B, whose risk is 51 pips, is rejected under the default band.\<close>

theorem validateSetup_spec_witness:
  "validateSetup (\<lambda>_. ''50.0'') (\<lambda>_. ''50'')
      \<lparr>direction = BUY, entryZone = 1.0999, stopLoss = 1.0949, takeProfit = 1.1049,
       riskPips = 50,
       structurePoint = \<lparr>index = 3, swingTime = ''t'', price = 1.0951, swingType = LOW\<rparr>\<rparr>
      EUR_USD 5 50
     = \<lparr>vr_valid = True, vr_reason = ''Setup is valid''\<rparr>
   \<and> \<not> vr_valid (validateSetup (\<lambda>_. ''51.0'') (\<lambda>_. ''50'')
      \<lparr>direction = BUY, entryZone = 1.0999, stopLoss = 1.0948, takeProfit = 1.1050,
       riskPips = 51,
       structurePoint = \<lparr>index = 3, swingTime = ''t'', price = 1.0950, swingType = LOW\<rparr>\<rparr>
      EUR_USD 5 50)"
  using validateSetup_spec [of "\<lambda>_. ''50.0''" "\<lambda>_. ''50''"
      "\<lparr>direction = BUY, entryZone = 1.0999, stopLoss = 1.0949, takeProfit = 1.1049,
       riskPips = 50,
       structurePoint = \<lparr>index = 3, swingTime = ''t'', price = 1.0951, swingType = LOW\<rparr>\<rparr>"
      EUR_USD 5 50]
    validateSetup_spec [of "\<lambda>_. ''51.0''" "\<lambda>_. ''50''"
      "\<lparr>direction = BUY, entryZone = 1.0999, stopLoss = 1.0948, takeProfit = 1.1050,
       riskPips = 51,
       structurePoint = \<lparr>index = 3, swingTime = ''t'', price = 1.0950, swingType = LOW\<rparr>\<rparr>"
      EUR_USD 5 50]
  by (simp add: validateSetup_def)

section \<open>Properties of the retracement monitor\<close>

lemma monitorLoop_acc:
  "monitorLoop ss c acc =
     \<lparr>triggered = triggered acc @
        map (\<lambda>s. s\<lparr>as_candlesElapsed := as_candlesElapsed s + 1, as_status := TRIGGERED\<rparr>)
          (filter (\<lambda>s. as_status s = WAITING
             \<and> entryReached (as_direction s) (as_entryZone s) c) ss),
      expired = expired acc @
        map (\<lambda>s. s\<lparr>as_candlesElapsed := as_candlesElapsed s + 1, as_status := EXPIRED\<rparr>)
          (filter (\<lambda>s. as_status s = WAITING
             \<and> \<not> entryReached (as_direction s) (as_entryZone s) c
             \<and> as_candlesElapsed s + 1 \<ge> 10) ss),
      stillActive = stillActive acc @
        map (\<lambda>s. s\<lparr>as_candlesElapsed := as_candlesElapsed s + 1\<rparr>)
          (filter (\<lambda>s. as_status s = WAITING
             \<and> \<not> entryReached (as_direction s) (as_entryZone s) c
             \<and> as_candlesElapsed s + 1 < 10) ss)\<rparr>"
proof (induction ss arbitrary: acc)
  case Nil
  show ?case by simp
next
  case (Cons s ss)
  show ?case
    by (simp add: Cons.IH Let_def isSetupExpired_def MAX_CANDLES_FOR_ENTRY_def entryReached_def)
qed

text \<open>
  Claim C1. For every list of setups and every new candle, \<open>monitorSetups\<close> copies each
  WAITING setup with its candle count raised by exactly one into exactly one of its three
  result lists: into \<open>triggered\<close>, with status TRIGGERED, iff the candle reaches the
  entry zone (whatever the count, so also when the raised count is 10); into
  \<open>expired\<close>, with status EXPIRED, iff the candle does not reach the entry zone and the
  raised count is at least 10; into \<open>stillActive\<close>, still WAITING, otherwise. A setup
  that is already TRIGGERED or EXPIRED appears in no result list, and the function has no
  failing branch.
\<close>

theorem monitorSetups_spec:
  "triggered (monitorSetups ss c) =
     map (\<lambda>s. s\<lparr>as_candlesElapsed := as_candlesElapsed s + 1, as_status := TRIGGERED\<rparr>)
       (filter (\<lambda>s. as_status s = WAITING
          \<and> entryReached (as_direction s) (as_entryZone s) c) ss)
   \<and> expired (monitorSetups ss c) =
     map (\<lambda>s. s\<lparr>as_candlesElapsed := as_candlesElapsed s + 1, as_status := EXPIRED\<rparr>)
       (filter (\<lambda>s. as_status s = WAITING
          \<and> \<not> entryReached (as_direction s) (as_entryZone s) c
          \<and> as_candlesElapsed s + 1 \<ge> 10) ss)
   \<and> stillActive (monitorSetups ss c) =
     map (\<lambda>s. s\<lparr>as_candlesElapsed := as_candlesElapsed s + 1\<rparr>)
       (filter (\<lambda>s. as_status s = WAITING
          \<and> \<not> entryReached (as_direction s) (as_entryZone s) c
          \<and> as_candlesElapsed s + 1 < 10) ss)"
  by (simp add: monitorSetups_def monitorLoop_acc)

text \<open>Four setups, the first with nine candles elapsed, against a candle that reaches
  the BUY entry and against one that does not.\<close>

theorem monitorSetups_spec_witness:
  "monitorSetups [exampleSetup ''a'' BUY 1.0999 9 WAITING, exampleSetup ''b'' BUY 1.0999 9 TRIGGERED,
                  exampleSetup ''c'' SELL 1.2 3 WAITING, exampleSetup ''d'' BUY 1.0999 9 EXPIRED]
      (exampleCandle 1.1010 1.0998 True)
     = \<lparr>triggered = [exampleSetup ''a'' BUY 1.0999 10 TRIGGERED], expired = [],
        stillActive = [exampleSetup ''c'' SELL 1.2 4 WAITING]\<rparr>
   \<and> monitorSetups [exampleSetup ''a'' BUY 1.0999 9 WAITING, exampleSetup ''b'' BUY 1.0999 9 TRIGGERED,
                  exampleSetup ''c'' SELL 1.2 3 WAITING, exampleSetup ''d'' BUY 1.0999 9 EXPIRED]
      (exampleCandle 1.1010 1.1005 True)
     = \<lparr>triggered = [], expired = [exampleSetup ''a'' BUY 1.0999 10 EXPIRED],
        stillActive = [exampleSetup ''c'' SELL 1.2 4 WAITING]\<rparr>"
  using monitorSetups_spec [of "[exampleSetup ''a'' BUY 1.0999 9 WAITING, exampleSetup ''b'' BUY 1.0999 9 TRIGGERED,
                  exampleSetup ''c'' SELL 1.2 3 WAITING, exampleSetup ''d'' BUY 1.0999 9 EXPIRED]"
      "exampleCandle 1.1010 1.0998 True"]
    monitorSetups_spec [of "[exampleSetup ''a'' BUY 1.0999 9 WAITING, exampleSetup ''b'' BUY 1.0999 9 TRIGGERED,
                  exampleSetup ''c'' SELL 1.2 3 WAITING, exampleSetup ''d'' BUY 1.0999 9 EXPIRED]"
      "exampleCandle 1.1010 1.1005 True"]
  by (simp add: exampleSetup_def exampleCandle_def entryReached_def MonitorResult.equality)

lemma retracementLoop_Cons:
  "retracementLoop d e (c # rest) i =
     (if complete c \<and> entryReached d e c
      then Some \<lparr>rc_triggered = True, rc_entryPrice = Some e, rc_triggerCandle = Some c,
                 rc_candlesElapsed = i + 1\<rparr>
      else retracementLoop d e rest (i + 1))"
  by (simp add: entryReached_def)

lemma retracementLoop_None:
  "(\<forall>k<length xs. \<not> (complete (xs ! k) \<and> entryReached d e (xs ! k)))
   \<Longrightarrow> retracementLoop d e xs i0 = None"
proof (induction xs arbitrary: i0)
  case Nil
  show ?case by simp
next
  case (Cons x xs)
  have h0: "\<not> (complete x \<and> entryReached d e x)"
    using Cons.prems [rule_format, of 0] by simp
  have "\<forall>k<length xs. \<not> (complete (xs ! k) \<and> entryReached d e (xs ! k))"
  proof (intro allI impI)
    fix k assume "k < length xs"
    then show "\<not> (complete (xs ! k) \<and> entryReached d e (xs ! k))"
      using Cons.prems [rule_format, of "Suc k"] by simp
  qed
  then have "retracementLoop d e xs (i0 + 1) = None" by (rule Cons.IH)
  with h0 show ?case by (simp only: retracementLoop_Cons if_False)
qed

lemma retracementLoop_Some:
  "i < length xs \<Longrightarrow> complete (xs ! i) \<and> entryReached d e (xs ! i)
   \<Longrightarrow> (\<forall>k<i. \<not> (complete (xs ! k) \<and> entryReached d e (xs ! k)))
   \<Longrightarrow> retracementLoop d e xs i0 =
        Some \<lparr>rc_triggered = True, rc_entryPrice = Some e, rc_triggerCandle = Some (xs ! i),
              rc_candlesElapsed = i0 + i + 1\<rparr>"
proof (induction xs arbitrary: i i0)
  case Nil
  then show ?case by simp
next
  case (Cons x xs)
  show ?case
  proof (cases i)
    case 0
    with Cons.prems(2) show ?thesis by (simp add: retracementLoop_Cons del: retracementLoop.simps)
  next
    case (Suc j)
    have h0: "\<not> (complete x \<and> entryReached d e x)"
      using Cons.prems(3) [rule_format, of 0] Suc by simp
    from Suc Cons.prems have a: "j < length xs"
      "complete (xs ! j) \<and> entryReached d e (xs ! j)" by simp_all
    have b: "\<forall>k<j. \<not> (complete (xs ! k) \<and> entryReached d e (xs ! k))"
    proof (intro allI impI)
      fix k assume "k < j"
      then show "\<not> (complete (xs ! k) \<and> entryReached d e (xs ! k))"
        using Cons.prems(3) [rule_format, of "Suc k"] Suc by simp
    qed
    have "retracementLoop d e xs (i0 + 1) =
        Some \<lparr>rc_triggered = True, rc_entryPrice = Some e, rc_triggerCandle = Some (xs ! j),
              rc_candlesElapsed = (i0 + 1) + j + 1\<rparr>"
      using a b by (rule Cons.IH)
    with h0 Suc show ?thesis by (simp add: retracementLoop_Cons del: retracementLoop.simps)
  qed
qed

text \<open>
  Claim C10. \<open>checkRetracement\<close> looks at the first ten candles only. Incomplete candles
  never trigger but keep their position: when the first complete candle that reaches the
  entry zone is at zero-based position \<open>i\<close> among the first ten, the result is a trigger
  on that candle with \<open>candlesElapsed = i + 1\<close>; when no complete candle among the
  first ten reaches the entry zone, the result is no trigger with \<open>candlesElapsed\<close>
  the length of the truncated list.
\<close>

theorem checkRetracement_spec:
  "checkRetracement d e cs = checkRetracement d e (take 10 cs)
   \<and> (\<forall>i. i < length (take 10 cs)
          \<and> complete (cs ! i) \<and> entryReached d e (cs ! i)
          \<and> (\<forall>k<i. \<not> (complete (cs ! k) \<and> entryReached d e (cs ! k)))
        \<longrightarrow> checkRetracement d e cs =
              \<lparr>rc_triggered = True, rc_entryPrice = Some e, rc_triggerCandle = Some (cs ! i),
               rc_candlesElapsed = i + 1\<rparr>)
   \<and> ((\<forall>i<length (take 10 cs). \<not> (complete (cs ! i) \<and> entryReached d e (cs ! i)))
        \<longrightarrow> checkRetracement d e cs =
              \<lparr>rc_triggered = False, rc_entryPrice = None, rc_triggerCandle = None,
               rc_candlesElapsed = length (take 10 cs)\<rparr>)"
proof (intro conjI allI impI)
  show "checkRetracement d e cs = checkRetracement d e (take 10 cs)"
    by (simp add: checkRetracement_def MAX_CANDLES_FOR_ENTRY_def)
next
  fix i
  assume h: "i < length (take 10 cs)
          \<and> complete (cs ! i) \<and> entryReached d e (cs ! i)
          \<and> (\<forall>k<i. \<not> (complete (cs ! k) \<and> entryReached d e (cs ! k)))"
  let ?xs = "take 10 cs"
  from h have i: "i < length ?xs" by simp
  then have eq: "?xs ! i = cs ! i" by simp
  have h2: "complete (?xs ! i) \<and> entryReached d e (?xs ! i)" using h eq by simp
  have h3: "\<forall>k<i. \<not> (complete (?xs ! k) \<and> entryReached d e (?xs ! k))"
  proof (intro allI impI)
    fix k assume k: "k < i"
    then have "?xs ! k = cs ! k" using i by simp
    then show "\<not> (complete (?xs ! k) \<and> entryReached d e (?xs ! k))"
      using h k by simp
  qed
  have "retracementLoop d e ?xs 0 =
        Some \<lparr>rc_triggered = True, rc_entryPrice = Some e, rc_triggerCandle = Some (?xs ! i),
              rc_candlesElapsed = 0 + i + 1\<rparr>"
    using i h2 h3 by (rule retracementLoop_Some)
  then show "checkRetracement d e cs =
              \<lparr>rc_triggered = True, rc_entryPrice = Some e, rc_triggerCandle = Some (cs ! i),
               rc_candlesElapsed = i + 1\<rparr>"
    using eq by (simp add: checkRetracement_def MAX_CANDLES_FOR_ENTRY_def)
next
  assume h: "\<forall>i<length (take 10 cs). \<not> (complete (cs ! i) \<and> entryReached d e (cs ! i))"
  let ?xs = "take 10 cs"
  have "\<forall>k<length ?xs. \<not> (complete (?xs ! k) \<and> entryReached d e (?xs ! k))"
  proof (intro allI impI)
    fix k assume k: "k < length ?xs"
    then have "?xs ! k = cs ! k" by simp
    then show "\<not> (complete (?xs ! k) \<and> entryReached d e (?xs ! k))"
      using h k by simp
  qed
  then have "retracementLoop d e ?xs 0 = None" by (rule retracementLoop_None)
  then show "checkRetracement d e cs =
              \<lparr>rc_triggered = False, rc_entryPrice = None, rc_triggerCandle = None,
               rc_candlesElapsed = length (take 10 cs)\<rparr>"
    by (simp add: checkRetracement_def MAX_CANDLES_FOR_ENTRY_def)
qed

text \<open>An incomplete candle that would reach the entry, then scenario C's second and
  third lows: the trigger is counted as the third candle; without the third candle the two
  candles are both counted.\<close>

theorem checkRetracement_spec_witness:
  "checkRetracement BUY 1.0999
      [exampleCandle 1.1010 1.0990 False, exampleCandle 1.1010 1.1002 True,
       exampleCandle 1.1010 1.0998 True]
     = \<lparr>rc_triggered = True, rc_entryPrice = Some 1.0999,
        rc_triggerCandle = Some (exampleCandle 1.1010 1.0998 True), rc_candlesElapsed = 3\<rparr>
   \<and> checkRetracement BUY 1.0999
      [exampleCandle 1.1010 1.0990 False, exampleCandle 1.1010 1.1002 True]
     = \<lparr>rc_triggered = False, rc_entryPrice = None, rc_triggerCandle = None,
        rc_candlesElapsed = 2\<rparr>"
  using checkRetracement_spec [of BUY "1.0999"
      "[exampleCandle 1.1010 1.0990 False, exampleCandle 1.1010 1.1002 True,
       exampleCandle 1.1010 1.0998 True]", THEN conjunct2, THEN conjunct1, rule_format, of 2]
    checkRetracement_spec [of BUY "1.0999"
      "[exampleCandle 1.1010 1.0990 False, exampleCandle 1.1010 1.1002 True]",
       THEN conjunct2, THEN conjunct2]
  by (simp add: exampleCandle_def entryReached_def All_less_Suc less_2_cases_iff)

section \<open>Properties of the swing point detection\<close>

lemma neighbourLoop_flags:
  "neighbourLoop cs i js (h, l) =
     (h \<and> (\<forall>j\<in>set js. high (cs ! (i - j)) < high (cs ! i) \<and> high (cs ! (i + j)) < high (cs ! i)),
      l \<and> (\<forall>j\<in>set js. low (cs ! i) < low (cs ! (i - j)) \<and> low (cs ! i) < low (cs ! (i + j))))"
proof (induction js arbitrary: h l)
  case Nil
  show ?case by simp
next
  case (Cons j js)
  show ?case
    by (simp add: Let_def Cons.IH not_le)
qed

lemma neighbourLoop_full:
  "neighbourLoop cs i [Suc 0..<Suc lookback] (True, True) =
     (strictHighOver cs lookback i, strictLowUnder cs lookback i)"
proof -
  have "set [Suc 0..<Suc lookback] = {1..lookback}" by auto
  then show ?thesis
    by (simp only: neighbourLoop_flags strictHighOver_def strictLowUnder_def simp_thms)
qed

lemma swingLoop_concat:
  "swingLoop cs lookback is acc = acc @ concat (map (swingsAt cs lookback) is)"
proof (induction "is" arbitrary: acc)
  case Nil
  show ?case by simp
next
  case (Cons i "is")
  show ?case
    by (simp add: Cons.IH neighbourLoop_full swingsAt_def Let_def del: upt_Suc)
qed

lemma index_swingsAt: "sp \<in> set (swingsAt cs lookback i) \<Longrightarrow> index sp = i"
  by (auto simp: swingsAt_def split: if_splits)

lemma sorted_concat_swingsAt:
  "sorted is \<Longrightarrow> sorted (map index (concat (map (swingsAt cs lookback) is)))"
proof (induction "is")
  case Nil
  show ?case by simp
next
  case (Cons i "is")
  then have tl: "sorted (map index (concat (map (swingsAt cs lookback) is)))" by simp
  have hd: "sorted (map index (swingsAt cs lookback i))"
    by (simp add: swingsAt_def)
  have le: "\<forall>a\<in>set (swingsAt cs lookback i). \<forall>b\<in>set (concat (map (swingsAt cs lookback) is)).
              index a \<le> index b"
  proof (intro ballI)
    fix a b
    assume a: "a \<in> set (swingsAt cs lookback i)"
      and b: "b \<in> set (concat (map (swingsAt cs lookback) is))"
    from b obtain k where k: "k \<in> set is" "b \<in> set (swingsAt cs lookback k)" by auto
    from Cons.prems k(1) have "i \<le> k" by simp
    with a k(2) show "index a \<le> index b" by (simp add: index_swingsAt)
  qed
  show ?case using hd tl le by (simp add: sorted_append)
qed

lemma findSwingPoints_concat:
  "findSwingPoints cs lookback =
     (if length cs < lookback * 2 + 1 then []
      else concat (map (swingsAt cs lookback) [lookback..<length cs - lookback]))"
proof -
  have "sorted (map index (concat (map (swingsAt cs lookback) [lookback..<length cs - lookback])))"
    by (rule sorted_concat_swingsAt) simp
  then show ?thesis
    by (simp add: findSwingPoints_def swingLoop_concat sort_key_id_if_sorted)
qed

text \<open>
  Claim C7. For every candle list and lookback, the result of \<open>findSwingPoints\<close> is
  sorted by index ascending; every entry has \<open>lookback\<close> candles on each side; the price
  of a HIGH entry is its candle's high and is strictly above the highs of the
  \<open>lookback\<close> candles on each side; the price of a LOW entry is its candle's low and is
  strictly below the lows of the \<open>lookback\<close> candles on each side; the result is empty
  when there are fewer than \<open>2 * lookback + 1\<close> candles; and there is an input on which
  one candle is returned both as a HIGH and as a LOW.
\<close>

theorem findSwingPoints_spec:
  "sorted (map index (findSwingPoints cs lookback))
   \<and> (\<forall>sp\<in>set (findSwingPoints cs lookback).
        lookback \<le> index sp \<and> index sp + lookback < length cs
        \<and> (swingType sp = HIGH \<longrightarrow>
             price sp = high (cs ! index sp)
             \<and> (\<forall>j\<in>{1..lookback}. high (cs ! (index sp - j)) < price sp
                                  \<and> high (cs ! (index sp + j)) < price sp))
        \<and> (swingType sp = LOW \<longrightarrow>
             price sp = low (cs ! index sp)
             \<and> (\<forall>j\<in>{1..lookback}. price sp < low (cs ! (index sp - j))
                                  \<and> price sp < low (cs ! (index sp + j)))))
   \<and> (length cs < 2 * lookback + 1 \<longrightarrow> findSwingPoints cs lookback = [])
   \<and> (\<exists>cs' lookback' hi lo. hi \<in> set (findSwingPoints cs' lookback')
          \<and> lo \<in> set (findSwingPoints cs' lookback')
          \<and> swingType hi = HIGH \<and> swingType lo = LOW \<and> index hi = index lo)"
proof (intro conjI)
  show "sorted (map index (findSwingPoints cs lookback))"
    by (simp add: findSwingPoints_def)
next
  show "\<forall>sp\<in>set (findSwingPoints cs lookback).
        lookback \<le> index sp \<and> index sp + lookback < length cs
        \<and> (swingType sp = HIGH \<longrightarrow>
             price sp = high (cs ! index sp)
             \<and> (\<forall>j\<in>{1..lookback}. high (cs ! (index sp - j)) < price sp
                                  \<and> high (cs ! (index sp + j)) < price sp))
        \<and> (swingType sp = LOW \<longrightarrow>
             price sp = low (cs ! index sp)
             \<and> (\<forall>j\<in>{1..lookback}. price sp < low (cs ! (index sp - j))
                                  \<and> price sp < low (cs ! (index sp + j))))"
  proof
    fix sp
    assume "sp \<in> set (findSwingPoints cs lookback)"
    then obtain i where len: "\<not> length cs < lookback * 2 + 1"
      and i: "lookback \<le> i" "i < length cs - lookback"
      and sp: "sp \<in> set (swingsAt cs lookback i)"
      by (auto simp: findSwingPoints_concat split: if_splits)
    from sp have idx: "index sp = i" by (rule index_swingsAt)
    from sp have hi: "swingType sp = HIGH \<Longrightarrow> price sp = high (cs ! i) \<and> strictHighOver cs lookback i"
      by (auto simp: swingsAt_def split: if_splits)
    from sp have lo: "swingType sp = LOW \<Longrightarrow> price sp = low (cs ! i) \<and> strictLowUnder cs lookback i"
      by (auto simp: swingsAt_def split: if_splits)
    from i have rng: "lookback \<le> index sp \<and> index sp + lookback < length cs"
      using idx by auto
    show "lookback \<le> index sp \<and> index sp + lookback < length cs
        \<and> (swingType sp = HIGH \<longrightarrow>
             price sp = high (cs ! index sp)
             \<and> (\<forall>j\<in>{1..lookback}. high (cs ! (index sp - j)) < price sp
                                  \<and> high (cs ! (index sp + j)) < price sp))
        \<and> (swingType sp = LOW \<longrightarrow>
             price sp = low (cs ! index sp)
             \<and> (\<forall>j\<in>{1..lookback}. price sp < low (cs ! (index sp - j))
                                  \<and> price sp < low (cs ! (index sp + j))))"
      using rng hi lo unfolding idx strictHighOver_def strictLowUnder_def by auto
  qed
next
  show "length cs < 2 * lookback + 1 \<longrightarrow> findSwingPoints cs lookback = []"
    by (simp add: findSwingPoints_def mult.commute)
next
  let ?c = "\<lambda>h l. \<lparr>time = ''t'', open = l, high = h, low = l, close = h, complete = True\<rparr>"
  let ?cs = "[?c 2 1, ?c 3 0, ?c 2 1]"
  have "findSwingPoints ?cs 1 =
      [\<lparr>index = 1, swingTime = ''t'', price = 3, swingType = HIGH\<rparr>,
       \<lparr>index = 1, swingTime = ''t'', price = 0, swingType = LOW\<rparr>]"
    by (simp add: findSwingPoints_concat swingsAt_def strictHighOver_def strictLowUnder_def)
  then show "\<exists>cs' lookback' hi lo. hi \<in> set (findSwingPoints cs' lookback')
          \<and> lo \<in> set (findSwingPoints cs' lookback')
          \<and> swingType hi = HIGH \<and> swingType lo = LOW \<and> index hi = index lo"
    by (intro exI [of _ ?cs] exI [of _ 1]
          exI [of _ "\<lparr>index = 1, swingTime = ''t'', price = 3, swingType = HIGH\<rparr>"]
          exI [of _ "\<lparr>index = 1, swingTime = ''t'', price = 0, swingType = LOW\<rparr>"]) simp
qed

text \<open>Three candles with lookback 1, the middle one both the highest and the lowest;
  and two candles, too few for lookback 1.\<close>

theorem findSwingPoints_spec_witness:
  "\<lparr>index = 1, swingTime = ''t'', price = 3, swingType = HIGH\<rparr>
     \<in> set (findSwingPoints [exampleCandle 2 1 True, exampleCandle 3 0 True, exampleCandle 2 1 True] 1)
   \<and> \<lparr>index = 1, swingTime = ''t'', price = 0, swingType = LOW\<rparr>
     \<in> set (findSwingPoints [exampleCandle 2 1 True, exampleCandle 3 0 True, exampleCandle 2 1 True] 1)
   \<and> high ([exampleCandle 2 1 True, exampleCandle 3 0 True, exampleCandle 2 1 True] ! 0) < 3
   \<and> high ([exampleCandle 2 1 True, exampleCandle 3 0 True, exampleCandle 2 1 True] ! 2) < 3
   \<and> length [exampleCandle 2 1 True, exampleCandle 3 0 True] < 2 * 1 + 1
   \<and> findSwingPoints [exampleCandle 2 1 True, exampleCandle 3 0 True] 1 = []"
  using findSwingPoints_spec [of "[exampleCandle 2 1 True, exampleCandle 3 0 True, exampleCandle 2 1 True]" 1]
    findSwingPoints_spec [of "[exampleCandle 2 1 True, exampleCandle 3 0 True]" 1]
  by (simp add: findSwingPoints_concat swingsAt_def strictHighOver_def strictLowUnder_def
        exampleCandle_def)

section \<open>Properties of the trend classification\<close>

lemma sliceLast_two:
  assumes "length xs \<ge> 2"
  shows "sliceLast 2 xs = [xs ! (length xs - 2), last xs]"
proof (cases xs rule: rev_cases)
  case Nil
  with assms show ?thesis by simp
next
  case (snoc ys b)
  note outer = snoc
  show ?thesis
  proof (cases ys rule: rev_cases)
    case Nil
    with outer assms show ?thesis by simp
  next
    case (snoc zs a)
    with outer show ?thesis by (simp add: sliceLast_def nth_append)
  qed
qed

lemma sliceLast_short: "length xs < 2 \<Longrightarrow> sliceLast 2 xs = xs"
  by (simp add: sliceLast_def)

lemma comparePair_highs:
  assumes "\<forall>s\<in>set hs. swingType s = HIGH"
  shows "comparePair isHigherHigh isLowerHigh (sliceLast 2 hs) =
     (if length hs \<ge> 2
      then Inr (Some (price (last hs) > price (hs ! (length hs - 2))),
                Some (price (last hs) < price (hs ! (length hs - 2))))
      else Inr (None, None))"
proof (cases "length hs \<ge> 2")
  case True
  then have a: "hs ! (length hs - 2) \<in> set hs" and b: "last hs \<in> set hs"
    by (auto intro: nth_mem last_in_set)
  with assms have "swingType (hs ! (length hs - 2)) = HIGH" "swingType (last hs) = HIGH"
    by auto
  with True show ?thesis
    by (simp add: sliceLast_two comparePair_def isHigherHigh_def isLowerHigh_def)
next
  case False
  then show ?thesis by (simp add: sliceLast_short comparePair_def)
qed

lemma comparePair_lows:
  assumes "\<forall>s\<in>set ls. swingType s = LOW"
  shows "comparePair isHigherLow isLowerLow (sliceLast 2 ls) =
     (if length ls \<ge> 2
      then Inr (Some (price (last ls) > price (ls ! (length ls - 2))),
                Some (price (last ls) < price (ls ! (length ls - 2))))
      else Inr (None, None))"
proof (cases "length ls \<ge> 2")
  case True
  then have a: "ls ! (length ls - 2) \<in> set ls" and b: "last ls \<in> set ls"
    by (auto intro: nth_mem last_in_set)
  with assms have "swingType (ls ! (length ls - 2)) = LOW" "swingType (last ls) = LOW"
    by auto
  with True show ?thesis
    by (simp add: sliceLast_two comparePair_def isHigherLow_def isLowerLow_def)
next
  case False
  then show ?thesis by (simp add: sliceLast_short comparePair_def)
qed

lemma getSwingRelationships_flags:
  fixes cs :: "Candle list" and lb :: nat
  defines "hs \<equiv> filter (\<lambda>s. swingType s = HIGH) (findSwingPoints cs lb)"
    and "ls \<equiv> filter (\<lambda>s. swingType s = LOW) (findSwingPoints cs lb)"
  shows "getSwingRelationships cs lb =
     Inr \<lparr>highs = sliceLast 2 hs, lows = sliceLast 2 ls,
          hasHigherHigh = (if length hs \<ge> 2
             then Some (price (last hs) > price (hs ! (length hs - 2))) else None),
          hasHigherLow = (if length ls \<ge> 2
             then Some (price (last ls) > price (ls ! (length ls - 2))) else None),
          hasLowerHigh = (if length hs \<ge> 2
             then Some (price (last hs) < price (hs ! (length hs - 2))) else None),
          hasLowerLow = (if length ls \<ge> 2
             then Some (price (last ls) < price (ls ! (length ls - 2))) else None)\<rparr>"
proof -
  have h: "\<forall>s\<in>set hs. swingType s = HIGH" by (simp add: hs_def)
  have l: "\<forall>s\<in>set ls. swingType s = LOW" by (simp add: ls_def)
  show ?thesis
    unfolding getSwingRelationships_def Let_def hs_def [symmetric] ls_def [symmetric]
    by (simp add: comparePair_highs [OF h] comparePair_lows [OF l])
qed

text \<open>
  Claim C8. For every candle list and lookback, \<open>classifyTrend\<close> never throws and
  returns RANGING when fewer than 4 swing points are found. With at least 4 swing points
  it returns UP iff there are at least two swing highs and two swing lows, the latest
  swing high is strictly above the one before it and the latest swing low is strictly
  above the one before it; DOWN iff there are at least two of each and both latest ones
  are strictly below the ones before them; and RANGING in every other case (fewer than two
  highs or two lows, equal consecutive swings, mixed directions).
\<close>

theorem classifyTrend_spec:
  fixes cs :: "Candle list" and lb :: nat
  defines "swings \<equiv> findSwingPoints cs lb"
  defines "hs \<equiv> filter (\<lambda>s. swingType s = HIGH) swings"
    and "ls \<equiv> filter (\<lambda>s. swingType s = LOW) swings"
  defines "up \<equiv> length hs \<ge> 2 \<and> length ls \<ge> 2
                 \<and> price (last hs) > price (hs ! (length hs - 2))
                 \<and> price (last ls) > price (ls ! (length ls - 2))"
    and "down \<equiv> length hs \<ge> 2 \<and> length ls \<ge> 2
                 \<and> price (last hs) < price (hs ! (length hs - 2))
                 \<and> price (last ls) < price (ls ! (length ls - 2))"
  shows "(length swings < 4 \<longrightarrow> classifyTrend cs lb = Inr RANGING)
   \<and> (length swings \<ge> 4 \<longrightarrow>
        (classifyTrend cs lb = Inr UP \<longleftrightarrow> up)
      \<and> (classifyTrend cs lb = Inr DOWN \<longleftrightarrow> down)
      \<and> (classifyTrend cs lb = Inr RANGING \<longleftrightarrow> \<not> up \<and> \<not> down))
   \<and> (classifyTrend cs lb = Inr UP \<or> classifyTrend cs lb = Inr DOWN
        \<or> classifyTrend cs lb = Inr RANGING)"
  unfolding classifyTrend_def hasEnoughSwingPoints_def MIN_SWING_POINTS_def
    getSwingRelationships_flags swings_def hs_def ls_def up_def down_def
  by auto

text \<open>With lookback 1: highs 12 then 13 and lows 7 then 8 give UP; highs 13 then 12 and
  lows 7 then 6 give DOWN; a list with two swing points only gives RANGING.\<close>

theorem classifyTrend_spec_witness:
  "classifyTrend [exampleCandle 10 8 True, exampleCandle 12 9 True, exampleCandle 11 7 True,
                  exampleCandle 13 10 True, exampleCandle 12 8 True, exampleCandle 12.5 9 True] 1
     = Inr UP
   \<and> classifyTrend [exampleCandle 12 9 True, exampleCandle 13 10 True, exampleCandle 11 7 True,
                  exampleCandle 12 8 True, exampleCandle 10 6 True, exampleCandle 11 7 True] 1
     = Inr DOWN
   \<and> classifyTrend [exampleCandle 2 1 True, exampleCandle 3 0 True, exampleCandle 2 1 True] 1
     = Inr RANGING"
  using classifyTrend_spec [of "[exampleCandle 10 8 True, exampleCandle 12 9 True, exampleCandle 11 7 True,
                  exampleCandle 13 10 True, exampleCandle 12 8 True, exampleCandle 12.5 9 True]" 1]
    classifyTrend_spec [of "[exampleCandle 12 9 True, exampleCandle 13 10 True, exampleCandle 11 7 True,
                  exampleCandle 12 8 True, exampleCandle 10 6 True, exampleCandle 11 7 True]" 1]
    classifyTrend_spec [of "[exampleCandle 2 1 True, exampleCandle 3 0 True, exampleCandle 2 1 True]" 1]
  by (simp add: findSwingPoints_concat swingsAt_def strictHighOver_def strictLowUnder_def
        exampleCandle_def)

section \<open>Properties of the setup calculation\<close>

text \<open>In the normal range the spacing \<open>ulp64 x\<close> is at most \<open>\<bar>x\<bar> / 2 ^ 52\<close>, so half a
  spacing is a relative error of at most \<open>2 powi (- 53)\<close>.\<close>

lemma ulp64_relative:
  assumes "2 powi (- 1022) \<le> \<bar>x\<bar>"
  shows "ulp64 x \<le> \<bar>x\<bar> / 2 ^ 52"
proof -
  have pos: "(0::real) < 2 powi (- 1022)" by simp
  with assms have x0: "x \<noteq> 0" by auto
  have b: "2 powi expo2 x \<le> \<bar>x\<bar>" "\<bar>x\<bar> < 2 powi (expo2 x + 1)"
    using expo2_bounds [OF x0] by simp_all
  have "- 1022 \<le> expo2 x"
  proof (rule ccontr)
    assume "\<not> - 1022 \<le> expo2 x"
    then have "expo2 x + 1 \<le> - 1022" by simp
    then have "(2::real) powi (expo2 x + 1) \<le> 2 powi (- 1022)"
      by (intro power_int_increasing) simp_all
    with b(2) assms show False by simp
  qed
  then have m: "max (expo2 x - 52) (- 1074) = expo2 x - 52" by simp
  have "(2::real) powi (expo2 x - 52) = 2 powi expo2 x / 2 powi 52"
    by (rule power_int_diff) simp
  then have "ulp64 x = 2 powi expo2 x / 2 ^ 52"
    unfolding ulp64_def m by simp
  also have "\<dots> \<le> \<bar>x\<bar> / 2 ^ 52" using b(1) by (simp add: divide_right_mono)
  finally show ?thesis .
qed

lemma getStructureForSL_last:
  "getStructureForSL cs d lb =
     (let anchors = filter (\<lambda>s. swingType s = (if d = BUY then LOW else HIGH))
                      (findSwingPoints cs lb)
      in if anchors = [] then None else Some (last anchors))"
  by (simp add: getStructureForSL_def getMostRecentSwingLow_def getMostRecentSwingHigh_def
        findSwingLows_def findSwingHighs_def Let_def last_conv_nth)

text \<open>The swing points of the example candles, and the setups the code computes from
  them.\<close>

lemma findSwingPoints_examples:
  "findSwingPoints exampleDip 3 =
     [\<lparr>index = 3, swingTime = ''t'', price = round64 1.0950, swingType = LOW\<rparr>]
   \<and> findSwingPoints examplePeak 3 =
     [\<lparr>index = 3, swingTime = ''t'', price = round64 1.1050, swingType = HIGH\<rparr>]"
  by code_simp

lemma calculateTradeSetup_JPY:
  "calculateTradeSetup BUY 127.75 exampleDipJPY USD_JPY =
     Some \<lparr>direction = BUY, entryZone = 127.75,
           stopLoss = 8970607507768607 / 70368744177664,
           takeProfit = 281518957175767 / 2199023255552,
           riskPips = 474989023199225 / 17592186044416,
           structurePoint = \<lparr>index = 3, swingTime = ''t'', price = 127.5, swingType = LOW\<rparr>\<rparr>"
  by code_simp

lemma calculateTradeSetup_scenarioB:
  "calculateTradeSetup BUY (round64 1.0999) exampleDip EUR_USD =
     Some \<lparr>direction = BUY, entryZone = round64 1.0999, stopLoss = round64 1.0948,
           takeProfit = round64 1.1050 + ulp64 1.1050,
           riskPips = 7177611906121875 / 140737488355328,
           structurePoint = \<lparr>index = 3, swingTime = ''t'', price = round64 1.0950,
                              swingType = LOW\<rparr>\<rparr>"
  by code_simp

lemma calculateTradeSetup_noHigh:
  "calculateTradeSetup SELL (round64 1.0999) exampleDip EUR_USD = None"
  by code_simp

lemma calculateTradeSetup_peak:
  "calculateTradeSetup SELL (round64 1.1001) examplePeak EUR_USD =
     Some \<lparr>direction = SELL, entryZone = round64 1.1001, stopLoss = round64 1.1052,
           takeProfit = round64 1.0950 + ulp64 1.0950,
           riskPips = 3588805953060781 / 70368744177664,
           structurePoint = \<lparr>index = 3, swingTime = ''t'', price = round64 1.1050,
                              swingType = HIGH\<rparr>\<rparr>"
  by code_simp




text \<open>
  Claim C4 as stated fails: the target distance is not exactly the stop distance. For a
  USD/JPY BUY at 127.75 over the swing low 127.5 the code returns the stop
  \<open>127.5 - 0.02\<close> and the target \<open>127.75 + (127.75 - stop)\<close>, each rounded to binary64,
  and the two distances from the entry zone differ.
\<close>

theorem calculateTradeSetup_exact_counterexample:
  "calculateTradeSetup BUY 127.75 exampleDipJPY USD_JPY \<noteq> None
   \<and> takeProfit (the (calculateTradeSetup BUY 127.75 exampleDipJPY USD_JPY))
        - entryZone (the (calculateTradeSetup BUY 127.75 exampleDipJPY USD_JPY))
      = 593736278999 / 2199023255552
   \<and> entryZone (the (calculateTradeSetup BUY 127.75 exampleDipJPY USD_JPY))
        - stopLoss (the (calculateTradeSetup BUY 127.75 exampleDipJPY USD_JPY))
      = 18999560927969 / 70368744177664
   \<and> \<bar>takeProfit (the (calculateTradeSetup BUY 127.75 exampleDipJPY USD_JPY))
        - entryZone (the (calculateTradeSetup BUY 127.75 exampleDipJPY USD_JPY))\<bar>
      \<noteq> \<bar>entryZone (the (calculateTradeSetup BUY 127.75 exampleDipJPY USD_JPY))
        - stopLoss (the (calculateTradeSetup BUY 127.75 exampleDipJPY USD_JPY))\<bar>"
  unfolding calculateTradeSetup_JPY by simp

text \<open>
  Claim C4, amended. With the anchors of a direction being the swing LOWs (BUY) or the
  swing HIGHs (SELL) that \<open>findSwingPoints\<close> finds with the default lookback 3,
  \<open>calculateTradeSetup\<close> returns nothing iff there is no anchor. Otherwise it returns a
  setup for the given direction and entry zone whose structure point is the most recent
  anchor, whose stop is the binary64 difference of the anchor's price and the pair's buffer
  for BUY and their binary64 sum for SELL, whose risk is the binary64 difference of entry
  zone and stop (BUY) or of stop and entry zone (SELL), and whose target is the binary64
  sum of entry zone and risk (BUY) or their binary64 difference (SELL). The target
  distance equals the stop distance up to these two roundings: the two differ by at most
  half a spacing of the binary64 values at the stop distance plus half a spacing at the
  target.
\<close>

theorem calculateTradeSetup_spec:
  fixes d :: Direction and e :: real and cs :: "Candle list" and p :: Pair
  defines "anchors \<equiv> filter (\<lambda>s. swingType s = (if d = BUY then LOW else HIGH))
                       (findSwingPoints cs 3)"
  shows "(calculateTradeSetup d e cs p = None \<longleftrightarrow> anchors = [])
   \<and> (anchors \<noteq> [] \<longrightarrow>
        (\<exists>s risk. calculateTradeSetup d e cs p = Some s
           \<and> direction s = d \<and> entryZone s = e \<and> structurePoint s = last anchors
           \<and> stopLoss s = (if d = BUY then sub64 (price (last anchors)) (slBuffer (PAIR_CONFIGS p))
                            else add64 (price (last anchors)) (slBuffer (PAIR_CONFIGS p)))
           \<and> risk = (if d = BUY then sub64 e (stopLoss s) else sub64 (stopLoss s) e)
           \<and> takeProfit s = (if d = BUY then add64 e risk else sub64 e risk)
           \<and> \<bar>(takeProfit s - e) - (e - stopLoss s)\<bar>
               \<le> ulp64 (e - stopLoss s) / 2
                 + ulp64 (if d = BUY then e + risk else e - risk) / 2))"
proof (cases "anchors = []")
  case True
  then show ?thesis
    unfolding anchors_def calculateTradeSetup_def getStructureForSL_last SWING_LOOKBACK_def
      Let_def by simp
next
  case False
  define sp where "sp = last anchors"
  define b where "b = slBuffer (PAIR_CONFIGS p)"
  have g: "getStructureForSL cs d SWING_LOOKBACK = Some sp"
    using False unfolding anchors_def sp_def getStructureForSL_last SWING_LOOKBACK_def Let_def
    by simp
  show ?thesis
  proof (cases d)
    case BUY
    define sl where "sl = sub64 (price sp) b"
    define risk where "risk = sub64 e sl"
    define tp where "tp = add64 e risk"
    have c: "calculateTradeSetup d e cs p =
        Some \<lparr>direction = d, entryZone = e, stopLoss = sl, takeProfit = tp,
              riskPips = mul64 risk (getPipMultiplier p), structurePoint = sp\<rparr>"
      using BUY g by (simp add: calculateTradeSetup_def Let_def getSLBuffer_def b_def sl_def
          risk_def tp_def)
    have r1: "\<bar>risk - (e - sl)\<bar> \<le> ulp64 (e - sl) / 2"
      unfolding risk_def sub64_def by (rule round64_error)
    have r2: "\<bar>tp - (e + risk)\<bar> \<le> ulp64 (e + risk) / 2"
      unfolding tp_def add64_def by (rule round64_error)
    have "(tp - e) - (e - sl) = (tp - (e + risk)) + (risk - (e - sl))" by simp
    then have "\<bar>(tp - e) - (e - sl)\<bar> \<le> \<bar>tp - (e + risk)\<bar> + \<bar>risk - (e - sl)\<bar>"
      by (simp only: abs_triangle_ineq)
    with r1 r2 have bound: "\<bar>(tp - e) - (e - sl)\<bar> \<le> ulp64 (e - sl) / 2 + ulp64 (e + risk) / 2"
      by linarith
    have n: "calculateTradeSetup d e cs p \<noteq> None" by (simp add: c)
    show ?thesis
      using False bound n unfolding c
      by (intro conjI impI exI [of _ "\<lparr>direction = d, entryZone = e, stopLoss = sl,
              takeProfit = tp, riskPips = mul64 risk (getPipMultiplier p),
              structurePoint = sp\<rparr>"] exI [of _ risk])
         (simp_all add: BUY sl_def risk_def tp_def sp_def b_def)
  next
    case SELL
    define sl where "sl = add64 (price sp) b"
    define risk where "risk = sub64 sl e"
    define tp where "tp = sub64 e risk"
    have c: "calculateTradeSetup d e cs p =
        Some \<lparr>direction = d, entryZone = e, stopLoss = sl, takeProfit = tp,
              riskPips = mul64 risk (getPipMultiplier p), structurePoint = sp\<rparr>"
      using SELL g by (simp add: calculateTradeSetup_def Let_def getSLBuffer_def b_def sl_def
          risk_def tp_def)
    have "\<bar>risk - (sl - e)\<bar> \<le> ulp64 (sl - e) / 2"
      unfolding risk_def sub64_def by (rule round64_error)
    moreover have "ulp64 (sl - e) = ulp64 (e - sl)"
      using ulp64_minus [of "e - sl"] by simp
    ultimately have r1: "\<bar>risk - (sl - e)\<bar> \<le> ulp64 (e - sl) / 2" by simp
    have r2: "\<bar>tp - (e - risk)\<bar> \<le> ulp64 (e - risk) / 2"
      unfolding tp_def sub64_def by (rule round64_error)
    have "(tp - e) - (e - sl) = (tp - (e - risk)) + (- (risk - (sl - e)))" by simp
    then have "\<bar>(tp - e) - (e - sl)\<bar> \<le> \<bar>tp - (e - risk)\<bar> + \<bar>- (risk - (sl - e))\<bar>"
      by (simp only: abs_triangle_ineq)
    moreover have "\<bar>- (risk - (sl - e))\<bar> = \<bar>risk - (sl - e)\<bar>"
      by (rule abs_minus_cancel)
    ultimately have bound:
      "\<bar>(tp - e) - (e - sl)\<bar> \<le> ulp64 (e - sl) / 2 + ulp64 (e - risk) / 2"
      using r1 r2 by linarith
    have n: "calculateTradeSetup d e cs p \<noteq> None" by (simp add: c)
    show ?thesis
      using False bound n unfolding c
      by (intro conjI impI exI [of _ "\<lparr>direction = d, entryZone = e, stopLoss = sl,
              takeProfit = tp, riskPips = mul64 risk (getPipMultiplier p),
              structurePoint = sp\<rparr>"] exI [of _ risk])
         (simp_all add: SELL sl_def risk_def tp_def sp_def b_def)
  qed
qed

text \<open>Scenario B of the specification on binary64 values: swing low 1.0950, buffer
  0.0002, entry 1.0999 give the stop 1.0948 and the target one spacing above 1.1050; the
  same candles have no swing high, so a SELL gets no setup; a SELL at 1.1001 under the
  swing high 1.1050 gets the stop 1.1052 and the target one spacing above 1.0950.\<close>

theorem calculateTradeSetup_spec_witness:
  "filter (\<lambda>s. swingType s = LOW) (findSwingPoints exampleDip 3) \<noteq> []
   \<and> filter (\<lambda>s. swingType s = HIGH) (findSwingPoints exampleDip 3) = []
   \<and> filter (\<lambda>s. swingType s = HIGH) (findSwingPoints examplePeak 3) \<noteq> []
   \<and> calculateTradeSetup BUY (round64 1.0999) exampleDip EUR_USD =
     Some \<lparr>direction = BUY, entryZone = round64 1.0999, stopLoss = round64 1.0948,
           takeProfit = round64 1.1050 + ulp64 1.1050,
           riskPips = 7177611906121875 / 140737488355328,
           structurePoint = \<lparr>index = 3, swingTime = ''t'', price = round64 1.0950,
                              swingType = LOW\<rparr>\<rparr>
   \<and> calculateTradeSetup SELL (round64 1.0999) exampleDip EUR_USD = None
   \<and> calculateTradeSetup SELL (round64 1.1001) examplePeak EUR_USD =
     Some \<lparr>direction = SELL, entryZone = round64 1.1001, stopLoss = round64 1.1052,
           takeProfit = round64 1.0950 + ulp64 1.0950,
           riskPips = 3588805953060781 / 70368744177664,
           structurePoint = \<lparr>index = 3, swingTime = ''t'', price = round64 1.1050,
                              swingType = HIGH\<rparr>\<rparr>"
  using calculateTradeSetup_spec [of BUY "round64 1.0999" exampleDip EUR_USD]
    calculateTradeSetup_spec [of SELL "round64 1.0999" exampleDip EUR_USD]
    calculateTradeSetup_spec [of SELL "round64 1.1001" examplePeak EUR_USD]
    calculateTradeSetup_scenarioB calculateTradeSetup_noHigh calculateTradeSetup_peak
    findSwingPoints_examples
  by simp




text \<open>
  The second condition of the amended claim is needed: for gold with the swing low at the
  binary64 value of 2048.2 and the entry zone 2048, the stop is one spacing below the entry
  zone, and the target rounds back onto the entry zone.
\<close>

lemma calculateTradeSetup_target_on_entry:
  "calculateTradeSetup BUY 2048 exampleDipXAU XAU_USD =
     Some \<lparr>direction = BUY, entryZone = 2048,
           stopLoss = 9007199254740991 / 4398046511104, takeProfit = 2048,
           riskPips = 5 / 2199023255552,
           structurePoint = \<lparr>index = 3, swingTime = ''t'', price = round64 2048.2,
                              swingType = LOW\<rparr>\<rparr>"
  by code_simp

section \<open>Properties of the in-memory signal manager\<close>

text \<open>
  Claim C6 asks that a signal candle whose setup has since been triggered or has expired
  is still detected as a duplicate. \<open>hasExistingSetup\<close> searches the active setups only,
  and \<open>processNewCandle\<close> deletes a setup from them when it is triggered or expires: the
  setup with signal candle time \<open>t0\<close> is found after \<open>addSetup\<close>, and is no longer found
  after a candle that triggers it, nor after the candle on which it expires.
\<close>

theorem hasExistingSetup_after_trigger:
  "hasExistingSetup (addSetup newSignalManager (exampleSetup ''a'' BUY 1.0999 0 WAITING))
      EUR_USD ''t0''
   \<and> \<not> hasExistingSetup
        (fst (processNewCandle exampleGen ''now''
               (addSetup newSignalManager (exampleSetup ''a'' BUY 1.0999 0 WAITING))
               EUR_USD M15 (exampleCandle 1.1010 1.0998 True)))
        EUR_USD ''t0''
   \<and> \<not> hasExistingSetup
        (fst (processNewCandle exampleGen ''now''
               (addSetup newSignalManager (exampleSetup ''a'' BUY 1.0999 9 WAITING))
               EUR_USD M15 (exampleCandle 1.1010 1.1005 True)))
        EUR_USD ''t0''"
  by code_simp

end
